theory Spec2Isabelle
  imports Main
begin

section \<open>Python values, exceptions and outcomes\<close>

text \<open>
  The program is Python (CPython 3.12: the f-string at server.py line 269 nests double
  quotes). Every value the dispatcher handles comes from a decoded JSON document (the
  argument bag of a tool call, a reply of the remote service), so values are the JSON
  fragment of Python's object model. A dictionary is an association list in insertion
  order with string keys; a lookup reads the first binding of a key.
\<close>

datatype pyval =
    PNone
  | PBool bool
  | PInt int
  | PStr string
  | PList "pyval list"
  | PDict "(string \<times> pyval) list"

text \<open>
  Exceptions are values: the class decides which \<open>except\<close> clause catches it, the string is
  what \<open>str(e)\<close> gives. \<open>PyException\<close> is the class \<open>Exception\<close> itself, raised by
  \<open>raise Exception(...)\<close>. Every class listed derives from \<open>Exception\<close>.
\<close>

datatype exn_class =
    AssertionError
  | AttributeError
  | KeyError
  | IndexError
  | TypeError
  | ValueError
  | JSONDecodeError
  | RequestException
  | SpotifyException
  | PyException

datatype exn = Exn exn_class string

text \<open>
  A call returns a value, raises, or does not return: \<open>Unfinished\<close> stands for a paging
  loop that is still running when its fuel is spent. No \<open>except\<close> clause catches it.
\<close>

datatype 'a outcome = Returns 'a | Raises exn | Unfinished

fun exn_class_of :: "exn \<Rightarrow> exn_class" where
  "exn_class_of (Exn c m) = c"

fun str_of_exn :: "exn \<Rightarrow> string" where
  "str_of_exn (Exn c m) = m"

definition obind :: "'a outcome \<Rightarrow> ('a \<Rightarrow> 'b outcome) \<Rightarrow> 'b outcome" where
  "obind r f = (case r of Returns v \<Rightarrow> f v | Raises e \<Rightarrow> Raises e | Unfinished \<Rightarrow> Unfinished)"

definition of_sum :: "exn + 'a \<Rightarrow> 'a outcome" where
  "of_sum r = (case r of Inl e \<Rightarrow> Raises e | Inr v \<Rightarrow> Returns v)"

subsection \<open>Built-in operations on values\<close>

definition sq :: string where
  "sq = [CHR 0x27]"

definition dq :: string where
  "dq = [CHR 0x22]"

definition nl :: string where
  "nl = [CHR 0x0A]"

fun truthy :: "pyval \<Rightarrow> bool" where
  "truthy PNone = False"
| "truthy (PBool b) = b"
| "truthy (PInt i) = (i \<noteq> 0)"
| "truthy (PStr s) = (s \<noteq> [])"
| "truthy (PList xs) = (xs \<noteq> [])"
| "truthy (PDict kvs) = (kvs \<noteq> [])"

fun type_name :: "pyval \<Rightarrow> string" where
  "type_name PNone = ''NoneType''"
| "type_name (PBool b) = ''bool''"
| "type_name (PInt i) = ''int''"
| "type_name (PStr s) = ''str''"
| "type_name (PList xs) = ''list''"
| "type_name (PDict kvs) = ''dict''"

definition no_attribute :: "pyval \<Rightarrow> string \<Rightarrow> exn" where
  "no_attribute x a =
     Exn AttributeError (sq @ type_name x @ sq @ '' object has no attribute '' @ sq @ a @ sq)"

text \<open>\<open>x.get(k, d)\<close>: only a dictionary has the method.\<close>

fun dict_get :: "pyval \<Rightarrow> string \<Rightarrow> pyval \<Rightarrow> pyval outcome" where
  "dict_get (PDict kvs) k d = Returns (case map_of kvs k of Some v \<Rightarrow> v | None \<Rightarrow> d)"
| "dict_get x k d = Raises (no_attribute x ''get'')"

text \<open>\<open>x[k]\<close> with a string key \<open>k\<close>.\<close>

fun subscript :: "pyval \<Rightarrow> string \<Rightarrow> pyval outcome" where
  "subscript (PDict kvs) k =
     (case map_of kvs k of Some v \<Rightarrow> Returns v | None \<Rightarrow> Raises (Exn KeyError (sq @ k @ sq)))"
| "subscript (PList xs) k =
     Raises (Exn TypeError ''list indices must be integers or slices, not str'')"
| "subscript (PStr s) k =
     Raises (Exn TypeError (''string indices must be integers, not '' @ sq @ ''str'' @ sq))"
| "subscript x k =
     Raises (Exn TypeError (sq @ type_name x @ sq @ '' object is not subscriptable''))"

fun contains_str :: "string \<Rightarrow> string \<Rightarrow> bool" where
  "contains_str p [] = (p = [])"
| "contains_str p (x # xs) = (take (length p) (x # xs) = p \<or> contains_str p xs)"

text \<open>\<open>k in x\<close> for a string \<open>k\<close>: substring, list membership or dictionary key.\<close>

fun py_in :: "string \<Rightarrow> pyval \<Rightarrow> bool outcome" where
  "py_in k (PStr s) = Returns (contains_str k s)"
| "py_in k (PList xs) = Returns (PStr k \<in> set xs)"
| "py_in k (PDict kvs) = Returns (k \<in> set (map fst kvs))"
| "py_in k x =
     Raises (Exn TypeError (''argument of type '' @ sq @ type_name x @ sq @ '' is not iterable''))"

text \<open>The items a \<open>for\<close> loop or a comprehension draws from a value.\<close>

fun py_iter :: "pyval \<Rightarrow> pyval list outcome" where
  "py_iter (PList xs) = Returns xs"
| "py_iter (PDict kvs) = Returns (map (\<lambda>kv. PStr (fst kv)) kvs)"
| "py_iter (PStr s) = Returns (map (\<lambda>c. PStr [c]) s)"
| "py_iter x = Raises (Exn TypeError (sq @ type_name x @ sq @ '' object is not iterable''))"

text \<open>\<open>x.startswith(p)\<close>: a string method.\<close>

fun startswith :: "pyval \<Rightarrow> string \<Rightarrow> bool outcome" where
  "startswith (PStr s) p = Returns (take (length p) s = p)"
| "startswith x p = Raises (no_attribute x ''startswith'')"

text \<open>\<open>s.split(c)\<close> for a one-character separator: never empty.\<close>

fun split_on :: "char \<Rightarrow> string \<Rightarrow> string list" where
  "split_on c [] = [[]]"
| "split_on c (x # xs) =
     (if x = c then [] # split_on c xs
      else (case split_on c xs of p # ps \<Rightarrow> (x # p) # ps | [] \<Rightarrow> [[x]]))"

text \<open>Evaluates the entries of a dictionary display left to right.\<close>

fun build_dict :: "(string \<times> pyval outcome) list \<Rightarrow> (string \<times> pyval) list outcome" where
  "build_dict [] = Returns []"
| "build_dict ((k, r) # rest) =
     obind r (\<lambda>v. obind (build_dict rest) (\<lambda>kvs. Returns ((k, v) # kvs)))"

text \<open>Maps a function that may raise over a list, in order.\<close>

fun omap :: "('a \<Rightarrow> 'b outcome) \<Rightarrow> 'a list \<Rightarrow> 'b list outcome" where
  "omap f [] = Returns []"
| "omap f (x # xs) = obind (f x) (\<lambda>y. obind (omap f xs) (\<lambda>ys. Returns (y # ys)))"

text \<open>\<open>[artist['name'] for artist in v]\<close>\<close>

definition names_of :: "pyval \<Rightarrow> pyval outcome" where
  "names_of v =
     obind (py_iter v) (\<lambda>xs. obind (omap (\<lambda>a. subscript a ''name'') xs) (\<lambda>ns. Returns (PList ns)))"

section \<open>The world outside the process\<close>

text \<open>
  The remote service is reached through the client object \<open>self.sp\<close>, the local search
  endpoint through \<open>requests.get\<close>. Both are black boxes: what a request returns may
  depend on everything that happened before it, so a reply is a function of the history.
  The history records every request in the order it was issued, and every line written
  with \<open>logger.error\<close>; \<open>logger.info\<close> lines are not recorded.
\<close>

datatype event =
    SpCall string "pyval list"
  | LocalGet pyval pyval
  | LogError string

record world =
  history :: "event list"
  username :: pyval

type_synonym 'a py = "world \<Rightarrow> 'a outcome \<times> world"

definition ret :: "'a \<Rightarrow> 'a py" where
  "ret v w = (Returns v, w)"

definition raise :: "exn \<Rightarrow> 'a py" where
  "raise e w = (Raises e, w)"

definition lift :: "'a outcome \<Rightarrow> 'a py" where
  "lift r w = (r, w)"

definition bind :: "'a py \<Rightarrow> ('a \<Rightarrow> 'b py) \<Rightarrow> 'b py" where
  "bind m f w =
     (case m w of
        (Returns v, w') \<Rightarrow> f v w'
      | (Raises e, w') \<Rightarrow> (Raises e, w')
      | (Unfinished, w') \<Rightarrow> (Unfinished, w'))"

text \<open>\<open>try: m  except Exception as e: h e\<close>\<close>

definition catch :: "'a py \<Rightarrow> (exn \<Rightarrow> 'a py) \<Rightarrow> 'a py" where
  "catch m h w =
     (case m w of
        (Raises e, w') \<Rightarrow> h e w'
      | r \<Rightarrow> r)"

text \<open>\<open>try: m  except C as e: h e\<close> for one class \<open>C\<close>\<close>

definition catch_class :: "exn_class \<Rightarrow> 'a py \<Rightarrow> (exn \<Rightarrow> 'a py) \<Rightarrow> 'a py" where
  "catch_class c m h w =
     (case m w of
        (Raises e, w') \<Rightarrow> (if exn_class_of e = c then h e w' else (Raises e, w'))
      | r \<Rightarrow> r)"

definition log_error :: "string \<Rightarrow> pyval py" where
  "log_error m w = (Returns PNone, w\<lparr>history := history w @ [LogError m]\<rparr>)"

text \<open>
  The parameters of the model. \<open>remote\<close> and \<open>local_endpoint\<close> are the two services;
  \<open>local_endpoint\<close> gives the outcome of \<open>requests.get\<close>, \<open>raise_for_status\<close> and \<open>.json()\<close>
  together (the decoded body, or the exception of the first step that fails; the
  \<open>requests\<close> library reports a timeout, a refused connection and an HTTP error status as
  a \<open>RequestException\<close>). \<open>SPOTIFY_COUNTRY\<close> is read from the environment. The standard
  library enters through \<open>urlparse_path\<close> (\<open>urlparse(u).path\<close>), \<open>json_loads\<close>,
  \<open>int_of_str\<close> (\<open>int(s)\<close>) and \<open>container_repr\<close> (how an f-string renders a list or a
  dictionary). The module \<open>utils\<close> is imported by both source files and is not among them:
  its two decorators and five parsing functions are parameters. A decorator receives the
  method it wraps (for \<open>validate\<close>, as a function of the \<open>device\<close> keyword it may supply)
  and decides in which world, and whether, the method runs.
\<close>

record env =
  remote :: "event list \<Rightarrow> string \<Rightarrow> pyval list \<Rightarrow> exn + pyval"
  local_endpoint :: "event list \<Rightarrow> pyval \<Rightarrow> pyval \<Rightarrow> exn + pyval"
  SPOTIFY_COUNTRY :: pyval
  urlparse_path :: "string \<Rightarrow> exn + string"
  json_loads :: "string \<Rightarrow> exn + pyval"
  int_of_str :: "string \<Rightarrow> exn + int"
  container_repr :: "pyval \<Rightarrow> string"
  validate :: "(pyval \<Rightarrow> pyval py) \<Rightarrow> pyval py"
  ensure_username :: "pyval py \<Rightarrow> pyval py"
  parse_local_documents :: "pyval \<Rightarrow> pyval \<Rightarrow> exn + pyval"
  parse_search_results :: "pyval \<Rightarrow> pyval \<Rightarrow> pyval \<Rightarrow> exn + pyval"
  parse_track :: "pyval \<Rightarrow> exn + pyval"
  parse_tracks :: "pyval \<Rightarrow> exn + pyval"
  parse_playlist :: "pyval \<Rightarrow> pyval \<Rightarrow> exn + pyval"

text \<open>\<open>self.sp.m(args)\<close>: one request to the remote service.\<close>

definition sp :: "env \<Rightarrow> string \<Rightarrow> pyval list \<Rightarrow> pyval py" where
  "sp E m args w =
     (of_sum (remote E (history w) m args), w\<lparr>history := history w @ [SpCall m args]\<rparr>)"

definition requests_get :: "env \<Rightarrow> pyval \<Rightarrow> pyval \<Rightarrow> pyval py" where
  "requests_get E q t w =
     (of_sum (local_endpoint E (history w) q t), w\<lparr>history := history w @ [LocalGet q t]\<rparr>)"

section \<open>spotify_api.py: class Client\<close>

subsection \<open>Method names bound more than once\<close>

text \<open>
  The body of \<open>class Client\<close> holds three names twice. A class body is executed top to
  bottom and a later \<open>def\<close> rebinds the name, so the method a call reaches is the last
  one. \<open>Client_defs\<close> lists the \<open>def\<close> statements of the class with their lines.
\<close>

definition Client_defs :: "(string \<times> nat) list" where
  "Client_defs =
     [(''smart_search'', 36), (''__init__'', 79), (''set_username'', 101),
      (''is_valid_track'', 104), (''is_valid_playlist'', 113), (''is_valid_album'', 122),
      (''is_valid_artist'', 131), (''get_playlist_tracks'', 140), (''get_album_tracks'', 168),
      (''get_artist_top_tracks'', 193), (''add_to_queue'', 219), (''get_queue'', 236),
      (''get_info'', 244), (''_extract_id_from_uri'', 300), (''search'', 319),
      (''recommendations'', 333), (''get_current_track'', 339), (''start_playback'', 363),
      (''pause_playback'', 399), (''add_to_queue'', 406), (''get_queue'', 414),
      (''get_liked_songs'', 423), (''is_track_playing'', 430),
      (''get_current_user_playlists'', 439), (''get_playlist_tracks'', 450),
      (''add_tracks_to_playlist'', 462), (''remove_tracks_from_playlist'', 481),
      (''change_playlist_details'', 499), (''get_devices'', 516), (''is_active_device'', 519),
      (''_get_candidate_device'', 522), (''auth_ok'', 532), (''auth_refresh'', 546),
      (''skip_track'', 549), (''previous_track'', 554), (''seek_to_position'', 557),
      (''set_volume'', 560)]"

definition bound_at :: "string \<Rightarrow> nat option" where
  "bound_at m = map_of (rev Client_defs) m"

subsection \<open>Identifiers and validation\<close>

text \<open>\<open>_extract_id_from_uri\<close> (lines 300 to 317)\<close>

definition extract_id_from_uri :: "env \<Rightarrow> pyval \<Rightarrow> pyval outcome" where
  "extract_id_from_uri E uri =
     obind (startswith uri ''spotify:'') (\<lambda>is_scheme.
       case uri of
         PStr s \<Rightarrow>
           if is_scheme then Returns (PStr (last (split_on CHR '':'' s)))
           else if take 4 s = ''http''
             then obind (of_sum (urlparse_path E s)) (\<lambda>path.
                    Returns (PStr (last (split_on CHR ''/'' path))))
             else Returns uri
       | _ \<Rightarrow> Returns uri)"

text \<open>
  \<open>is_valid_track\<close>, \<open>is_valid_playlist\<close>, \<open>is_valid_album\<close>, \<open>is_valid_artist\<close> (lines 104
  to 138) differ in the lookup only.
\<close>

definition is_valid :: "string \<Rightarrow> env \<Rightarrow> pyval \<Rightarrow> pyval py" where
  "is_valid lookup E spotify_uri =
     catch
       (bind (lift (extract_id_from_uri E spotify_uri)) (\<lambda>item_id.
        bind (sp E lookup [item_id]) (\<lambda>_.
        ret (PBool True))))
       (\<lambda>_. ret (PBool False))"

definition is_valid_track :: "env \<Rightarrow> pyval \<Rightarrow> pyval py" where
  "is_valid_track = is_valid ''track''"

definition is_valid_playlist :: "env \<Rightarrow> pyval \<Rightarrow> pyval py" where
  "is_valid_playlist = is_valid ''playlist''"

definition is_valid_album :: "env \<Rightarrow> pyval \<Rightarrow> pyval py" where
  "is_valid_album = is_valid ''album''"

definition is_valid_artist :: "env \<Rightarrow> pyval \<Rightarrow> pyval py" where
  "is_valid_artist = is_valid ''artist''"

subsection \<open>Track listings\<close>

text \<open>
  The dictionary the listings build for one track: \<open>uri\<close>, \<open>name\<close>, the artists' names and
  \<open>duration_ms\<close>, then the fields that differ from listing to listing.
\<close>

definition album_name_of :: "pyval \<Rightarrow> pyval outcome" where
  "album_name_of track =
     obind (py_in ''album'' track) (\<lambda>has_album.
       if has_album then obind (subscript track ''album'') (\<lambda>a. subscript a ''name'')
       else Returns PNone)"

definition track_data :: "pyval \<Rightarrow> (string \<times> pyval outcome) list \<Rightarrow> pyval outcome" where
  "track_data track others =
     obind (build_dict
              ([(''uri'', subscript track ''uri''),
                (''name'', subscript track ''name''),
                (''artists'', obind (subscript track ''artists'') names_of),
                (''duration_ms'', subscript track ''duration_ms'')] @ others))
       (\<lambda>kvs. Returns (PDict kvs))"

text \<open>
  One item of a playlist page (lines 147 to 158): an item that is empty, has no \<open>track\<close>
  or an empty one is skipped.
\<close>

definition playlist_item :: "pyval \<Rightarrow> pyval list outcome" where
  "playlist_item item =
     (if \<not> truthy item then Returns []
      else obind (py_in ''track'' item) (\<lambda>has_track.
        if \<not> has_track then Returns []
        else obind (subscript item ''track'') (\<lambda>track.
          if \<not> truthy track then Returns []
          else obind (track_data track [(''album'', album_name_of track)]) (\<lambda>d.
            Returns [d]))))"

text \<open>One item of an album page (lines 175 to 183).\<close>

definition album_item :: "pyval \<Rightarrow> pyval list outcome" where
  "album_item track =
     obind (track_data track [(''track_number'', subscript track ''track_number'')]) (\<lambda>d.
       Returns [d])"

definition page_tracks :: "(pyval \<Rightarrow> pyval list outcome) \<Rightarrow> pyval \<Rightarrow> pyval list outcome" where
  "page_tracks per_item results =
     obind (subscript results ''items'') (\<lambda>items.
     obind (py_iter items) (\<lambda>xs.
     obind (omap per_item xs) (\<lambda>ys. Returns (concat ys))))"

text \<open>
  The loop \<open>while results:\<close> of \<open>get_playlist_tracks\<close> (line 146) and of
  \<open>get_album_tracks\<close> (line 174): the tracks of the page, then the next page when
  \<open>results['next']\<close> is set. Nothing in the code bounds the number of pages, so the loop
  takes fuel: one unit for each page read.
\<close>

fun pages :: "(pyval \<Rightarrow> pyval list outcome) \<Rightarrow> nat \<Rightarrow> env \<Rightarrow> pyval \<Rightarrow> pyval list \<Rightarrow> pyval py" where
  "pages per_item 0 E results tracks w =
     (if truthy results then (Unfinished, w) else (Returns (PList tracks), w))"
| "pages per_item (Suc fuel) E results tracks w =
     (if \<not> truthy results then (Returns (PList tracks), w)
      else
        (case page_tracks per_item results of
           Raises e \<Rightarrow> (Raises e, w)
         | Unfinished \<Rightarrow> (Unfinished, w)
         | Returns new \<Rightarrow>
             (case subscript results ''next'' of
                Raises e \<Rightarrow> (Raises e, w)
              | Unfinished \<Rightarrow> (Unfinished, w)
              | Returns cursor \<Rightarrow>
                  if truthy cursor then
                    (case sp E ''next'' [results] w of
                       (Returns r, w') \<Rightarrow> pages per_item fuel E r (tracks @ new) w'
                     | (Raises e, w') \<Rightarrow> (Raises e, w')
                     | (Unfinished, w') \<Rightarrow> (Unfinished, w'))
                  else pages per_item fuel E PNone (tracks @ new) w)))"

text \<open>
  \<open>get_playlist_tracks\<close> as defined at line 140. The name is bound again at line 450, so
  no call reaches this definition.
\<close>

definition get_playlist_tracks_shadowed :: "nat \<Rightarrow> env \<Rightarrow> pyval \<Rightarrow> pyval py" where
  "get_playlist_tracks_shadowed fuel E playlist_uri =
     bind (lift (extract_id_from_uri E playlist_uri)) (\<lambda>playlist_id.
     bind (sp E ''playlist_items'' [playlist_id]) (\<lambda>results.
     pages playlist_item fuel E results []))"

text \<open>\<open>get_album_tracks\<close> (lines 168 to 191)\<close>

definition get_album_tracks :: "nat \<Rightarrow> env \<Rightarrow> pyval \<Rightarrow> pyval py" where
  "get_album_tracks fuel E album_uri =
     bind (lift (extract_id_from_uri E album_uri)) (\<lambda>album_id.
     bind (sp E ''album_tracks'' [album_id]) (\<lambda>results.
     pages album_item fuel E results []))"

text \<open>
  \<open>get_artist_top_tracks\<close> (lines 193 to 217): the market comes from the user's profile,
  and is \<open>US\<close> when the profile cannot be read.
\<close>

definition get_artist_top_tracks :: "env \<Rightarrow> pyval \<Rightarrow> pyval py" where
  "get_artist_top_tracks E artist_uri =
     bind (lift (extract_id_from_uri E artist_uri)) (\<lambda>artist_id.
     bind (catch
             (bind (sp E ''current_user'' []) (\<lambda>user_info.
              lift (subscript user_info ''country'')))
             (\<lambda>_. ret (PStr ''US''))) (\<lambda>market.
     bind (sp E ''artist_top_tracks'' [artist_id, market]) (\<lambda>results.
     lift (obind (subscript results ''tracks'') (\<lambda>ts.
           obind (py_iter ts) (\<lambda>xs.
           obind (omap (\<lambda>track.
                    track_data track
                      [(''album'', album_name_of track),
                       (''popularity'', subscript track ''popularity'')]) xs) (\<lambda>ds.
           Returns (PList ds))))))))"

subsection \<open>The queue\<close>

text \<open>\<open>len(x)\<close> and \<open>x[0]\<close>\<close>

fun py_len :: "pyval \<Rightarrow> nat outcome" where
  "py_len (PList xs) = Returns (length xs)"
| "py_len (PDict kvs) = Returns (length kvs)"
| "py_len (PStr s) = Returns (length s)"
| "py_len x = Raises (Exn TypeError (''object of type '' @ sq @ type_name x @ sq @ '' has no len()''))"

fun index0 :: "pyval \<Rightarrow> pyval outcome" where
  "index0 (PList xs) =
     (case xs of [] \<Rightarrow> Raises (Exn IndexError ''list index out of range'')
      | x # _ \<Rightarrow> Returns x)"
| "index0 (PDict kvs) = Raises (Exn KeyError ''0'')"
| "index0 (PStr s) =
     (case s of [] \<Rightarrow> Raises (Exn IndexError ''string index out of range'')
      | c # _ \<Rightarrow> Returns (PStr [c]))"
| "index0 x = Raises (Exn TypeError (sq @ type_name x @ sq @ '' object is not subscriptable''))"

text \<open>
  \<open>add_to_queue\<close> as defined at line 219: one attempt without a device and, when it
  fails, one more on the first listed device. The name is bound again at line 406, so
  no call reaches this definition.
\<close>

definition add_to_queue_shadowed :: "env \<Rightarrow> pyval \<Rightarrow> pyval py" where
  "add_to_queue_shadowed E spotify_uri =
     catch
       (bind (sp E ''add_to_queue'' [spotify_uri, PNone]) (\<lambda>_. ret (PBool True)))
       (\<lambda>_.
          bind (sp E ''devices'' []) (\<lambda>devices.
          bind (if truthy devices
                then lift (obind (subscript devices ''devices'') (\<lambda>ds.
                           obind (py_len ds) (\<lambda>n. Returns (0 < n))))
                else ret False) (\<lambda>some.
          if some then
            bind (lift (obind (subscript devices ''devices'') (\<lambda>ds.
                        obind (index0 ds) (\<lambda>d. subscript d ''id'')))) (\<lambda>device_id.
            bind (sp E ''add_to_queue'' [spotify_uri, device_id]) (\<lambda>_.
            ret (PBool True)))
          else
            raise (Exn PyException
              ''No active Spotify device found. Please open Spotify on a device first.''))))"

text \<open>\<open>device.get('id') if device else None\<close>\<close>

definition device_id_of :: "pyval \<Rightarrow> pyval outcome" where
  "device_id_of device = (if truthy device then dict_get device ''id'' PNone else Returns PNone)"

text \<open>
  \<open>add_to_queue\<close> as defined at line 406, under the decorator \<open>utils.validate\<close>: the
  method every call reaches. Its body sends one request.
\<close>

definition add_to_queue_body :: "env \<Rightarrow> pyval \<Rightarrow> pyval \<Rightarrow> pyval py" where
  "add_to_queue_body E track_id device =
     bind (lift (device_id_of device)) (\<lambda>device_id.
     bind (sp E ''add_to_queue'' [track_id, device_id]) (\<lambda>_.
     ret PNone))"

definition add_to_queue :: "env \<Rightarrow> pyval \<Rightarrow> pyval py" where
  "add_to_queue E track_id = validate E (add_to_queue_body E track_id)"

subsection \<open>Rendering values in f-strings\<close>

definition digit_char :: "nat \<Rightarrow> char" where
  "digit_char n = char_of (48 + n)"

function show_nat :: "nat \<Rightarrow> string" where
  "show_nat n = (if n < 10 then [digit_char n] else show_nat (n div 10) @ [digit_char (n mod 10)])"
  by pat_completeness auto
termination
  by (relation "measure id") auto

definition show_int :: "int \<Rightarrow> string" where
  "show_int i = (if i < 0 then ''-'' @ show_nat (nat (- i)) else show_nat (nat i))"

text \<open>\<open>str(v)\<close>, which is what a replacement field \<open>{v}\<close> of an f-string writes.\<close>

definition py_str :: "env \<Rightarrow> pyval \<Rightarrow> string" where
  "py_str E v =
     (case v of
        PStr s \<Rightarrow> s
      | PNone \<Rightarrow> ''None''
      | PBool b \<Rightarrow> (if b then ''True'' else ''False'')
      | PInt i \<Rightarrow> show_int i
      | _ \<Rightarrow> container_repr E v)"

subsection \<open>Item details\<close>

definition external_url_of :: "pyval \<Rightarrow> pyval outcome" where
  "external_url_of item =
     obind (py_in ''external_urls'' item) (\<lambda>has_urls.
       if has_urls then obind (subscript item ''external_urls'') (\<lambda>u. subscript u ''spotify'')
       else Returns PNone)"

definition info_dict :: "(string \<times> pyval outcome) list \<Rightarrow> pyval py" where
  "info_dict entries = lift (obind (build_dict entries) (\<lambda>kvs. Returns (PDict kvs)))"

text \<open>
  \<open>get_info\<close> (lines 244 to 298). The kind of the item is decided by substring tests on
  the whole locator, in the order track, playlist, album, artist.
\<close>

definition get_info :: "env \<Rightarrow> pyval \<Rightarrow> pyval py" where
  "get_info E item_uri =
     bind (lift (extract_id_from_uri E item_uri)) (\<lambda>item_id.
     bind (lift (py_in ''track'' item_uri)) (\<lambda>is_track.
     if is_track then
       bind (sp E ''track'' [item_id]) (\<lambda>item.
       info_dict
         [(''type'', Returns (PStr ''track'')),
          (''name'', subscript item ''name''),
          (''artists'', obind (subscript item ''artists'') names_of),
          (''album'', obind (subscript item ''album'') (\<lambda>a. subscript a ''name'')),
          (''duration_ms'', subscript item ''duration_ms''),
          (''popularity'', subscript item ''popularity''),
          (''uri'', subscript item ''uri''),
          (''external_url'', external_url_of item)])
     else
     bind (lift (py_in ''playlist'' item_uri)) (\<lambda>is_playlist.
     if is_playlist then
       bind (sp E ''playlist'' [item_id]) (\<lambda>item.
       info_dict
         [(''type'', Returns (PStr ''playlist'')),
          (''name'', subscript item ''name''),
          (''owner'', obind (subscript item ''owner'') (\<lambda>a. subscript a ''display_name'')),
          (''description'', subscript item ''description''),
          (''tracks_total'', obind (subscript item ''tracks'') (\<lambda>a. subscript a ''total'')),
          (''followers'', obind (subscript item ''followers'') (\<lambda>a. subscript a ''total'')),
          (''uri'', subscript item ''uri''),
          (''external_url'', external_url_of item)])
     else
     bind (lift (py_in ''album'' item_uri)) (\<lambda>is_album.
     if is_album then
       bind (sp E ''album'' [item_id]) (\<lambda>item.
       info_dict
         [(''type'', Returns (PStr ''album'')),
          (''name'', subscript item ''name''),
          (''artists'', obind (subscript item ''artists'') names_of),
          (''release_date'', subscript item ''release_date''),
          (''total_tracks'', subscript item ''total_tracks''),
          (''popularity'', subscript item ''popularity''),
          (''uri'', subscript item ''uri''),
          (''external_url'', external_url_of item)])
     else
     bind (lift (py_in ''artist'' item_uri)) (\<lambda>is_artist.
     if is_artist then
       bind (sp E ''artist'' [item_id]) (\<lambda>item.
       info_dict
         [(''type'', Returns (PStr ''artist'')),
          (''name'', subscript item ''name''),
          (''genres'', subscript item ''genres''),
          (''followers'', obind (subscript item ''followers'') (\<lambda>a. subscript a ''total'')),
          (''popularity'', subscript item ''popularity''),
          (''uri'', subscript item ''uri''),
          (''external_url'', external_url_of item)])
     else
       raise (Exn ValueError (''Unsupported URI type: '' @ py_str E item_uri)))))))"

subsection \<open>Search\<close>

text \<open>\<open>d[k] = v\<close> on the association list of a dictionary.\<close>

definition dict_set :: "(string \<times> pyval) list \<Rightarrow> string \<Rightarrow> pyval \<Rightarrow> (string \<times> pyval) list" where
  "dict_set kvs k v =
     (if k \<in> set (map fst kvs) then map (\<lambda>kv. if fst kv = k then (k, v) else kv) kvs
      else kvs @ [(k, v)])"

text \<open>\<open>x[k] = v\<close> with a string key.\<close>

fun setitem :: "pyval \<Rightarrow> string \<Rightarrow> pyval \<Rightarrow> pyval outcome" where
  "setitem (PDict kvs) k v = Returns (PDict (dict_set kvs k v))"
| "setitem (PList xs) k v =
     Raises (Exn TypeError ''list indices must be integers or slices, not str'')"
| "setitem x k v =
     Raises (Exn TypeError (sq @ type_name x @ sq @ '' object does not support item assignment''))"

text \<open>\<open>x[:limit]\<close>\<close>

definition take_int :: "int \<Rightarrow> 'a list \<Rightarrow> 'a list" where
  "take_int n xs = (if 0 \<le> n then take (nat n) xs else take (length xs - nat (- n)) xs)"

definition slice_bound :: "pyval \<Rightarrow> int option outcome" where
  "slice_bound l =
     (case l of
        PInt n \<Rightarrow> Returns (Some n)
      | PBool b \<Rightarrow> Returns (Some (if b then 1 else 0))
      | PNone \<Rightarrow> Returns None
      | _ \<Rightarrow> Raises (Exn TypeError
               ''slice indices must be integers or None or have an __index__ method''))"

definition slice_to :: "pyval \<Rightarrow> pyval \<Rightarrow> pyval outcome" where
  "slice_to x l =
     (case x of
        PList xs \<Rightarrow>
          obind (slice_bound l) (\<lambda>b.
            Returns (PList (case b of None \<Rightarrow> xs | Some n \<Rightarrow> take_int n xs)))
      | PStr s \<Rightarrow>
          obind (slice_bound l) (\<lambda>b.
            Returns (PStr (case b of None \<Rightarrow> s | Some n \<Rightarrow> take_int n s)))
      | PDict kvs \<Rightarrow> Raises (Exn KeyError ''slice'')
      | _ \<Rightarrow> Raises (Exn TypeError (sq @ type_name x @ sq @ '' object is not subscriptable'')))"

text \<open>
  Lines 61 to 64 and 67 to 70: the items of one section of the local results, cut to
  \<open>limit\<close> and passed one by one to \<open>self.parse_track\<close> or \<open>self.parse_playlist\<close>. The class
  \<open>Client\<close> has no attribute of either name (see \<open>Client_defs\<close>), so the first item
  raises; with no item, the section gets an empty list and the total 0.
\<close>

definition normalize_section :: "pyval \<Rightarrow> string \<Rightarrow> string \<Rightarrow> pyval \<Rightarrow> pyval outcome" where
  "normalize_section local_results section method limit =
     obind (subscript local_results section) (\<lambda>sec.
     obind (subscript sec ''items'') (\<lambda>items.
     obind (slice_to items limit) (\<lambda>cut.
     obind (py_iter cut) (\<lambda>xs.
       if xs \<noteq> [] then
         Raises (Exn AttributeError
           (sq @ ''Client'' @ sq @ '' object has no attribute '' @ sq @ method @ sq))
       else
         obind (setitem sec ''items'' (PList [])) (\<lambda>sec1.
         obind (setitem sec1 ''total'' (PInt 0)) (\<lambda>sec2.
         setitem local_results section sec2))))))"

text \<open>Line 75 to 77: the remote search, and its reply parsed by \<open>utils\<close>.\<close>

definition online_search :: "env \<Rightarrow> pyval \<Rightarrow> pyval \<Rightarrow> pyval \<Rightarrow> pyval py" where
  "online_search E query qtype limit =
     bind (sp E ''search'' [query, qtype, limit, SPOTIFY_COUNTRY E]) (\<lambda>online_results.
     (\<lambda>w. lift (of_sum (parse_search_results E online_results qtype (username w))) w))"

definition is_list :: "pyval \<Rightarrow> bool" where
  "is_list v = (case v of PList _ \<Rightarrow> True | _ \<Rightarrow> False)"

definition is_str :: "pyval \<Rightarrow> bool" where
  "is_str v = (case v of PStr _ \<Rightarrow> True | _ \<Rightarrow> False)"

text \<open>\<open>smart_search\<close> (lines 36 to 77)\<close>

definition smart_search :: "env \<Rightarrow> pyval \<Rightarrow> pyval \<Rightarrow> pyval \<Rightarrow> pyval py" where
  "smart_search E query qtype limit =
     bind (catch_class RequestException
             (requests_get E query qtype)
             (\<lambda>_. ret PNone)) (\<lambda>local_data.
     bind (if truthy local_data \<and> is_list local_data
           then lift (obind (py_len local_data) (\<lambda>n. Returns (0 < n)))
           else ret False) (\<lambda>use_local.
     if use_local then
       bind (lift (dict_get local_data ''documents'' (PList []))) (\<lambda>documents.
       if truthy documents then
         bind (lift (of_sum (parse_local_documents E documents qtype))) (\<lambda>local_results.
         if truthy local_results then
           bind (lift (py_in ''tracks'' local_results)) (\<lambda>has_tracks.
           if has_tracks then
             lift (normalize_section local_results ''tracks'' ''parse_track'' limit)
           else
             bind (lift (py_in ''playlists'' local_results)) (\<lambda>has_playlists.
             if has_playlists then
               lift (normalize_section local_results ''playlists'' ''parse_playlist'' limit)
             else ret local_results))
         else online_search E query qtype limit)
       else online_search E query qtype limit)
     else online_search E query qtype limit))"

text \<open>\<open>set_username\<close> (lines 100 to 102), under \<open>utils.validate\<close>\<close>

definition set_username :: "env \<Rightarrow> pyval py" where
  "set_username E =
     validate E (\<lambda>device.
       bind (sp E ''current_user'' []) (\<lambda>user.
       bind (lift (subscript user ''display_name'')) (\<lambda>n.
       (\<lambda>w. (Returns PNone, w\<lparr>username := n\<rparr>)))))"

text \<open>\<open>search\<close> (lines 318 to 330), under \<open>utils.validate\<close>\<close>

definition search :: "env \<Rightarrow> pyval \<Rightarrow> pyval \<Rightarrow> pyval \<Rightarrow> pyval py" where
  "search E query qtype limit =
     validate E (\<lambda>device.
       bind (\<lambda>w. if username w = PNone then set_username E w else (Returns PNone, w)) (\<lambda>_.
       smart_search E query qtype limit))"

subsection \<open>Playback\<close>

text \<open>
  \<open>get_current_track\<close> (lines 339 to 360). The two \<open>.get\<close> calls inside the
  \<open>logger.info\<close> line are kept: they raise when \<open>utils.parse_track\<close> gave no dictionary.
\<close>

definition get_current_track :: "env \<Rightarrow> pyval py" where
  "get_current_track E =
     catch
       (bind (sp E ''current_user_playing_track'' []) (\<lambda>current.
        if \<not> truthy current then ret PNone
        else
        bind (lift (dict_get current ''currently_playing_type'' PNone)) (\<lambda>kind.
        if kind \<noteq> PStr ''track'' then ret PNone
        else
        bind (lift (obind (subscript current ''item'') (\<lambda>item. of_sum (parse_track E item))))
          (\<lambda>track_info.
        bind (lift (py_in ''is_playing'' current)) (\<lambda>has_flag.
        bind (if has_flag
              then lift (obind (subscript current ''is_playing'') (\<lambda>p.
                         setitem track_info ''is_playing'' p))
              else ret track_info) (\<lambda>track_info.
        bind (lift (dict_get track_info ''name'' (PStr ''Unknown''))) (\<lambda>_.
        bind (lift (dict_get track_info ''artist'' (PStr ''Unknown''))) (\<lambda>_.
        ret track_info))))))))
       (\<lambda>e. bind (log_error ''Error getting current track info.'') (\<lambda>_. raise e))"

text \<open>\<open>is_track_playing\<close> (lines 430 to 437)\<close>

definition is_track_playing :: "env \<Rightarrow> pyval py" where
  "is_track_playing E =
     bind (get_current_track E) (\<lambda>curr_track.
     if \<not> truthy curr_track then ret (PBool False)
     else
     bind (lift (dict_get curr_track ''is_playing'' PNone)) (\<lambda>playing.
     ret (PBool (truthy playing))))"

text \<open>
  \<open>start_playback\<close> (lines 362 to 396), under \<open>utils.validate\<close>. The request carries
  \<open>uris\<close>, \<open>context_uri\<close> and \<open>device_id\<close> in this order.
\<close>

definition start_playback_body :: "env \<Rightarrow> pyval \<Rightarrow> pyval \<Rightarrow> pyval py" where
  "start_playback_body E spotify_uri device =
     catch
       (bind (if \<not> truthy spotify_uri then
                bind (is_track_playing E) (\<lambda>playing.
                if truthy playing then ret True
                else
                bind (get_current_track E) (\<lambda>curr.
                if \<not> truthy curr then
                  raise (Exn ValueError
                    ''No track_id provided and no current playback to resume.'')
                else ret False))
              else ret False) (\<lambda>already_playing.
        if already_playing then ret PNone
        else
        bind (if spotify_uri \<noteq> PNone then
                lift (obind (startswith spotify_uri ''spotify:track:'') (\<lambda>is_track.
                  Returns (if is_track then (PList [spotify_uri], PNone)
                           else (PNone, spotify_uri))))
              else ret (PNone, PNone)) (\<lambda>(uris, context_uri).
        bind (lift (device_id_of device)) (\<lambda>device_id.
        sp E ''start_playback'' [uris, context_uri, device_id]))))
       (\<lambda>e. bind (log_error (''Error starting playback: '' @ str_of_exn e @ ''.'')) (\<lambda>_.
            raise e))"

definition start_playback :: "env \<Rightarrow> pyval \<Rightarrow> pyval py" where
  "start_playback E spotify_uri = validate E (start_playback_body E spotify_uri)"

text \<open>\<open>pause_playback\<close> (lines 398 to 403), under \<open>utils.validate\<close>\<close>

definition pause_playback :: "env \<Rightarrow> pyval py" where
  "pause_playback E =
     validate E (\<lambda>device.
       bind (sp E ''current_playback'' []) (\<lambda>playback.
       bind (if truthy playback
             then lift (obind (dict_get playback ''is_playing'' PNone) (\<lambda>p. Returns (truthy p)))
             else ret False) (\<lambda>playing.
       if playing then
         bind (lift (device_id_of device)) (\<lambda>device_id.
         bind (sp E ''pause_playback'' [device_id]) (\<lambda>_. ret PNone))
       else ret PNone)))"

text \<open>\<open>skip_track\<close> (lines 549 to 552): \<open>n\<close> requests, one after the other.\<close>

fun next_tracks :: "nat \<Rightarrow> env \<Rightarrow> pyval py" where
  "next_tracks 0 E w = (Returns PNone, w)"
| "next_tracks (Suc k) E w =
     (case sp E ''next_track'' [] w of
        (Returns _, w') \<Rightarrow> next_tracks k E w'
      | (Raises e, w') \<Rightarrow> (Raises e, w')
      | (Unfinished, w') \<Rightarrow> (Unfinished, w'))"

definition skip_track :: "env \<Rightarrow> int \<Rightarrow> pyval py" where
  "skip_track E n = next_tracks (nat n) E"

text \<open>
  \<open>get_queue\<close> as defined at line 414, under \<open>utils.validate\<close>: the method every call
  reaches (the definition at line 236 is rebound).
\<close>

fun dict_pop :: "pyval \<Rightarrow> string \<Rightarrow> (pyval \<times> pyval) outcome" where
  "dict_pop (PDict kvs) k =
     (case map_of kvs k of
        Some v \<Rightarrow> Returns (v, PDict (filter (\<lambda>kv. fst kv \<noteq> k) kvs))
      | None \<Rightarrow> Raises (Exn KeyError (sq @ k @ sq)))"
| "dict_pop x k = Raises (no_attribute x ''pop'')"

definition get_queue :: "env \<Rightarrow> pyval py" where
  "get_queue E =
     validate E (\<lambda>device.
       bind (sp E ''queue'' []) (\<lambda>queue_info.
       bind (get_current_track E) (\<lambda>curr.
       bind (lift (setitem queue_info ''currently_playing'' curr)) (\<lambda>queue_info.
       bind (lift (obind (dict_pop queue_info ''queue'') (\<lambda>(queue, rest).
                   obind (py_iter queue) (\<lambda>ts.
                   obind (omap (\<lambda>t. of_sum (parse_track E t)) ts) (\<lambda>parsed.
                   setitem rest ''queue'' (PList parsed)))))) (\<lambda>queue_info.
       ret queue_info)))))"

subsection \<open>Playlists\<close>

text \<open>\<open>get_current_user_playlists\<close> (lines 439 to 447)\<close>

definition get_current_user_playlists :: "env \<Rightarrow> pyval py" where
  "get_current_user_playlists E =
     bind (sp E ''current_user_playlists'' []) (\<lambda>playlists.
     if \<not> truthy playlists then raise (Exn ValueError ''No playlists found.'')
     else
     (\<lambda>w. lift (obind (subscript playlists ''items'') (\<lambda>items.
                obind (py_iter items) (\<lambda>ps.
                obind (omap (\<lambda>p. of_sum (parse_playlist E p (username w))) ps) (\<lambda>parsed.
                Returns (PList parsed))))) w))"

text \<open>
  \<open>get_playlist_tracks\<close> as defined at line 450, under \<open>utils.ensure_username\<close>: the
  method every call reaches. It reads the playlist once and hands the items of the
  page embedded in it to \<open>utils.parse_tracks\<close>.
\<close>

definition get_playlist_tracks_body :: "env \<Rightarrow> pyval \<Rightarrow> pyval py" where
  "get_playlist_tracks_body E playlist_id =
     bind (sp E ''playlist'' [playlist_id]) (\<lambda>playlist.
     if \<not> truthy playlist then raise (Exn ValueError ''No playlist found.'')
     else
     lift (obind (subscript playlist ''tracks'') (\<lambda>page.
           obind (subscript page ''items'') (\<lambda>items.
           of_sum (parse_tracks E items)))))"

definition get_playlist_tracks :: "env \<Rightarrow> pyval \<Rightarrow> pyval py" where
  "get_playlist_tracks E playlist_id = ensure_username E (get_playlist_tracks_body E playlist_id)"

text \<open>
  \<open>add_tracks_to_playlist\<close> (lines 461 to 478), \<open>remove_tracks_from_playlist\<close> (lines 480
  to 496) and \<open>change_playlist_details\<close> (lines 498 to 514), each under
  \<open>utils.ensure_username\<close>. After the argument checks, the request runs inside a
  \<open>try\<close> whose handler logs the exception and falls through.
\<close>

definition add_tracks_to_playlist_body :: "env \<Rightarrow> pyval \<Rightarrow> pyval \<Rightarrow> pyval py" where
  "add_tracks_to_playlist_body E playlist_id track_ids =
     (if \<not> truthy playlist_id then raise (Exn ValueError ''No playlist ID provided.'')
      else if \<not> truthy track_ids then raise (Exn ValueError ''No track IDs provided.'')
      else
        catch
          (bind (sp E ''playlist_add_items'' [playlist_id, track_ids, PNone]) (\<lambda>_. ret PNone))
          (\<lambda>e. log_error (''Error adding tracks to playlist: '' @ str_of_exn e)))"

definition add_tracks_to_playlist :: "env \<Rightarrow> pyval \<Rightarrow> pyval \<Rightarrow> pyval py" where
  "add_tracks_to_playlist E playlist_id track_ids =
     ensure_username E (add_tracks_to_playlist_body E playlist_id track_ids)"

definition remove_tracks_from_playlist_body :: "env \<Rightarrow> pyval \<Rightarrow> pyval \<Rightarrow> pyval py" where
  "remove_tracks_from_playlist_body E playlist_id track_ids =
     (if \<not> truthy playlist_id then raise (Exn ValueError ''No playlist ID provided.'')
      else if \<not> truthy track_ids then raise (Exn ValueError ''No track IDs provided.'')
      else
        catch
          (bind (sp E ''playlist_remove_all_occurrences_of_items'' [playlist_id, track_ids])
             (\<lambda>_. ret PNone))
          (\<lambda>e. log_error (''Error removing tracks from playlist: '' @ str_of_exn e)))"

definition remove_tracks_from_playlist :: "env \<Rightarrow> pyval \<Rightarrow> pyval \<Rightarrow> pyval py" where
  "remove_tracks_from_playlist E playlist_id track_ids =
     ensure_username E (remove_tracks_from_playlist_body E playlist_id track_ids)"

definition change_playlist_details_body :: "env \<Rightarrow> pyval \<Rightarrow> pyval \<Rightarrow> pyval \<Rightarrow> pyval py" where
  "change_playlist_details_body E playlist_id name description =
     (if \<not> truthy playlist_id then raise (Exn ValueError ''No playlist ID provided.'')
      else
        catch
          (bind (sp E ''playlist_change_details'' [playlist_id, name, description])
             (\<lambda>_. ret PNone))
          (\<lambda>e. log_error (''Error changing playlist details: '' @ str_of_exn e)))"

definition change_playlist_details :: "env \<Rightarrow> pyval \<Rightarrow> pyval \<Rightarrow> pyval \<Rightarrow> pyval py" where
  "change_playlist_details E playlist_id name description =
     ensure_username E (change_playlist_details_body E playlist_id name description)"

section \<open>server.py\<close>

text \<open>
  A content block of a response is a \<open>TextContent\<close>. Its text is either a string the
  dispatcher wrote, or \<open>json.dumps(v, indent=2)\<close> of a value \<open>v\<close>: the second kind keeps
  the value instead of its rendering.
\<close>

datatype content = TextContent string | TextContentJson pyval

text \<open>\<open>create_error_response\<close> (lines 131 to 140)\<close>

definition create_error_response :: "string \<Rightarrow> content list" where
  "create_error_response message =
     [TextContentJson (PDict [(''error'', PBool True), (''message'', PStr message)])]"

text \<open>The symbols of the response texts, as the bytes of their UTF-8 encoding.\<close>

definition glyph_play :: string where
  "glyph_play = [CHR 0xE2, CHR 0x96, CHR 0xB6, CHR 0xEF, CHR 0xB8, CHR 0x8F]"

definition glyph_disc :: string where
  "glyph_disc = [CHR 0xF0, CHR 0x9F, CHR 0x92, CHR 0xBF]"

definition glyph_scroll :: string where
  "glyph_scroll = [CHR 0xF0, CHR 0x9F, CHR 0x93, CHR 0x9C]"

definition glyph_microphone :: string where
  "glyph_microphone = [CHR 0xF0, CHR 0x9F, CHR 0x8E, CHR 0xA4]"

definition glyph_check :: string where
  "glyph_check = [CHR 0xE2, CHR 0x9C, CHR 0x85]"

definition glyph_person :: string where
  "glyph_person = [CHR 0xF0, CHR 0x9F, CHR 0x91, CHR 0xA4]"

definition glyph_search :: string where
  "glyph_search = [CHR 0xF0, CHR 0x9F, CHR 0x94, CHR 0x8D]"

text \<open>\<open>sep.join(xs)\<close>: every item must be a string.\<close>

fun str_items :: "pyval list \<Rightarrow> string list outcome" where
  "str_items [] = Returns []"
| "str_items (PStr s # xs) = obind (str_items xs) (\<lambda>ss. Returns (s # ss))"
| "str_items (x # xs) =
     Raises (Exn TypeError (''sequence item: expected str instance, '' @ type_name x @ '' found''))"

fun intercalate :: "string \<Rightarrow> string list \<Rightarrow> string" where
  "intercalate sep [] = []"
| "intercalate sep [s] = s"
| "intercalate sep (s # t # ss) = s @ sep @ intercalate sep (t # ss)"

text \<open>\<open>get_artist_string\<close> (lines 540 to 559)\<close>

definition get_artist_string :: "pyval \<Rightarrow> string outcome" where
  "get_artist_string item =
     obind (dict_get item ''artists'' PNone) (\<lambda>artists.
     obind (dict_get item ''artist'' PNone) (\<lambda>artist.
     obind (str_items (case artists of
                         PList xs \<Rightarrow> xs
                       | _ \<Rightarrow> (case artist of PStr s \<Rightarrow> [artist] | _ \<Rightarrow> []))) (\<lambda>all_artists.
     Returns (intercalate '', '' all_artists))))"

definition ownership_text :: "pyval \<Rightarrow> string" where
  "ownership_text is_owner =
     (if truthy is_owner then glyph_check @ '' You own this playlist''
      else glyph_person @ '' Owned by someone else'')"

text \<open>\<open>format_playback_response\<close> (lines 142 to 173)\<close>

definition format_playback_response :: "env \<Rightarrow> pyval \<Rightarrow> string py" where
  "format_playback_response E spotify_uri =
     bind (get_info E spotify_uri) (\<lambda>curr_info.
     case spotify_uri of
       PStr u \<Rightarrow>
         (let uri_parts = split_on CHR '':'' u;
              uri_type = (if length uri_parts = 3 then uri_parts ! 1 else ''unknown'')
          in
          if uri_type = ''track'' then
            lift (obind (dict_get curr_info ''name'' (PStr ''Unknown Track'')) (\<lambda>title.
                  obind (get_artist_string curr_info) (\<lambda>artists.
                  Returns (glyph_play @ '' Now playing: '' @ dq @ py_str E title @ dq @ '' by ''
                           @ artists @ nl @ ''URI: '' @ u))))
          else if uri_type = ''album'' then
            lift (obind (dict_get curr_info ''name'' (PStr ''Unknown Album'')) (\<lambda>album.
                  obind (dict_get curr_info ''total_tracks'' (PStr ''N/A'')) (\<lambda>total.
                  obind (get_artist_string curr_info) (\<lambda>artists.
                  Returns (glyph_disc @ '' Playing album: '' @ dq @ py_str E album @ dq @ '' by ''
                           @ artists @ nl @ ''Tracks: '' @ py_str E total @ nl
                           @ ''URI: '' @ u)))))
          else if uri_type = ''playlist'' then
            lift (obind (dict_get curr_info ''name'' (PStr ''Unknown Playlist'')) (\<lambda>name.
                  obind (dict_get curr_info ''owner'' (PStr ''Unknown Owner'')) (\<lambda>owner.
                  obind (dict_get curr_info ''total_tracks'' (PStr ''N/A'')) (\<lambda>total.
                  obind (dict_get curr_info ''user_is_owner'' (PBool False)) (\<lambda>is_owner.
                  Returns (glyph_scroll @ '' Playing playlist: '' @ dq @ py_str E name @ dq @ nl
                           @ ''Owner: '' @ py_str E owner @ '' | Tracks: '' @ py_str E total @ nl
                           @ ownership_text is_owner @ nl
                           @ ''URI: '' @ u))))))
          else if uri_type = ''artist'' then
            lift (obind (dict_get curr_info ''name'' (PStr ''Unknown Artist'')) (\<lambda>name.
                  Returns (glyph_microphone @ '' Playing songs from artist: '' @ py_str E name
                           @ nl @ ''URI: '' @ u)))
          else
            ret (glyph_play @ '' Playback started for URI: '' @ u
                 @ '' (type: '' @ uri_type @ '')''))
     | _ \<Rightarrow> raise (no_attribute spotify_uri ''split''))"

subsection \<open>The arms of \<open>handle_call_tool\<close>\<close>

text \<open>
  The value of an arm is what \<open>handle_call_tool\<close> returns from inside it: \<open>Some\<close> of the
  content blocks, or \<open>None\<close> when control runs off the end of the function, which in
  Python returns \<open>None\<close>.
\<close>

text \<open>\<open>int(v)\<close>\<close>

definition py_int :: "env \<Rightarrow> pyval \<Rightarrow> int outcome" where
  "py_int E v =
     (case v of
        PInt i \<Rightarrow> Returns i
      | PBool b \<Rightarrow> Returns (if b then 1 else 0)
      | PStr s \<Rightarrow> of_sum (int_of_str E s)
      | _ \<Rightarrow> Raises (Exn TypeError
               (''int() argument must be a string, a bytes-like object or a real number, not ''
                @ sq @ type_name v @ sq)))"

text \<open>The arm \<open>case "Playback"\<close> (lines 184 to 242). An action outside the four has no case.\<close>

definition tool_Playback :: "env \<Rightarrow> pyval \<Rightarrow> content list option py" where
  "tool_Playback E arguments =
     bind (lift (dict_get arguments ''action'' PNone)) (\<lambda>action.
     if action = PStr ''get'' then
       bind (get_current_track E) (\<lambda>curr_track.
       if truthy curr_track then
         bind (lift (dict_get curr_track ''name'' (PStr ''Unknown''))) (\<lambda>_.
         ret (Some [TextContentJson curr_track]))
       else ret (Some [TextContent ''No track playing.'']))
     else if action = PStr ''start'' then
       bind (lift (dict_get arguments ''spotify_uri'' PNone)) (\<lambda>spotify_uri.
       bind (if truthy spotify_uri then
               bind (lift (startswith spotify_uri ''spotify:track:'')) (\<lambda>is_track.
               (let track_id = (case spotify_uri of
                                  PStr u \<Rightarrow> if is_track then PStr (last (split_on CHR '':'' u))
                                            else PNone
                                | _ \<Rightarrow> PNone)
                in if truthy track_id
                   then bind (is_valid_track E track_id) (\<lambda>ok. ret (\<not> truthy ok))
                   else ret False))
             else ret False) (\<lambda>rejected.
       if rejected then
         ret (Some (create_error_response
                ''Invalid or non-existent track URI. Please try another track.''))
       else
         bind (start_playback E spotify_uri) (\<lambda>_.
         bind (format_playback_response E spotify_uri) (\<lambda>text.
         ret (Some [TextContent text])))))
     else if action = PStr ''pause'' then
       bind (pause_playback E) (\<lambda>_.
       ret (Some [TextContent ''Playback paused.'']))
     else if action = PStr ''skip'' then
       bind (lift (obind (dict_get arguments ''num_skips'' (PInt 1)) (py_int E))) (\<lambda>num_skips.
       bind (skip_track E num_skips) (\<lambda>_.
       ret (Some [TextContent ''Skipped to next track.''])))
     else ret None)"

text \<open>One line of the search listing (lines 266 to 310); \<open>idx\<close> counts from 1.\<close>

definition search_line :: "env \<Rightarrow> pyval \<Rightarrow> nat \<Rightarrow> pyval \<Rightarrow> string outcome" where
  "search_line E qtype idx item =
     (if qtype = PStr ''track'' then
        obind (dict_get item ''name'' (PStr ''Unknown Title'')) (\<lambda>title.
        obind (dict_get item ''id'' (PStr ''N/A'')) (\<lambda>i.
        obind (get_artist_string item) (\<lambda>artists.
        Returns (show_nat idx @ ''. '' @ dq @ py_str E title @ dq @ '' by '' @ artists @ nl
                 @ ''   URI: spotify:track:'' @ py_str E i))))
      else if qtype = PStr ''artist'' then
        obind (dict_get item ''name'' (PStr ''Unknown Artist'')) (\<lambda>name.
        obind (dict_get item ''id'' (PStr ''N/A'')) (\<lambda>i.
        Returns (show_nat idx @ ''. '' @ glyph_person @ '' '' @ py_str E name @ nl
                 @ ''   URI: spotify:artist:'' @ py_str E i)))
      else if qtype = PStr ''album'' then
        obind (dict_get item ''name'' (PStr ''Unknown Album'')) (\<lambda>title.
        obind (dict_get item ''id'' (PStr ''N/A'')) (\<lambda>i.
        obind (get_artist_string item) (\<lambda>artists.
        Returns (show_nat idx @ ''. '' @ glyph_disc @ '' '' @ dq @ py_str E title @ dq @ '' by ''
                 @ artists @ nl @ ''   URI: spotify:album:'' @ py_str E i))))
      else if qtype = PStr ''playlist'' then
        obind (dict_get item ''name'' (PStr ''Unknown Playlist'')) (\<lambda>name.
        obind (dict_get item ''owner'' (PStr ''Unknown Owner'')) (\<lambda>owner.
        obind (dict_get item ''user_is_owner'' (PBool False)) (\<lambda>is_owner.
        obind (dict_get item ''total_tracks'' (PStr ''N/A'')) (\<lambda>total_tracks.
        obind (dict_get item ''id'' (PStr ''N/A'')) (\<lambda>i.
        Returns (show_nat idx @ ''. '' @ glyph_scroll @ '' '' @ dq @ py_str E name @ dq @ nl
                 @ ''   Owner: '' @ py_str E owner @ '' | Tracks: '' @ py_str E total_tracks @ nl
                 @ ''   '' @ ownership_text is_owner @ nl
                 @ ''   URI: spotify:playlist:'' @ py_str E i))))))
      else
        Returns (show_nat idx @ ''. Unsupported qtype: '' @ py_str E qtype))"

fun search_lines :: "env \<Rightarrow> pyval \<Rightarrow> nat \<Rightarrow> pyval list \<Rightarrow> string list outcome" where
  "search_lines E qtype idx [] = Returns []"
| "search_lines E qtype idx (item # items) =
     obind (search_line E qtype idx item) (\<lambda>l.
     obind (search_lines E qtype (Suc idx) items) (\<lambda>ls. Returns (l # ls)))"

text \<open>The arm \<open>case "Search"\<close> (lines 244 to 319), with its own handler.\<close>

definition tool_Search :: "env \<Rightarrow> pyval \<Rightarrow> content list option py" where
  "tool_Search E arguments =
     catch
       (bind (lift (dict_get arguments ''query'' (PStr []))) (\<lambda>query.
        bind (lift (dict_get arguments ''qtype'' (PStr ''track''))) (\<lambda>qtype.
        bind (lift (dict_get arguments ''limit'' (PInt 10))) (\<lambda>limit.
        bind (search E query qtype limit) (\<lambda>search_results.
        bind (lift (dict_get search_results (py_str E qtype @ ''s'') (PList []))) (\<lambda>result_items.
        if \<not> truthy result_items then
          ret (Some (create_error_response
                 (''No '' @ py_str E qtype @ ''s found for your query.'')))
        else
          bind (lift (obind (py_iter result_items) (search_lines E qtype 1))) (\<lambda>ls.
          ret (Some [TextContent
                 (intercalate nl
                    ((glyph_search @ '' Search Results for '' @ py_str E qtype @ ''s:'') # ls))]))))))))
       (\<lambda>e. bind (log_error (''Search failed: '' @ str_of_exn e)) (\<lambda>_.
            ret (Some (create_error_response
                   (''An error occurred during search: '' @ str_of_exn e)))))"

text \<open>
  The loop of lines 358 to 361, 380 to 383 and 402 to 405: each track's locator is read
  with \<open>track.get(key)\<close> and added to the queue; a track is appended to \<open>added_tracks\<close>
  after its request returned. An exception leaves the loop at once.
\<close>

fun enqueue_each :: "env \<Rightarrow> string \<Rightarrow> pyval list \<Rightarrow> pyval list \<Rightarrow> pyval list py" where
  "enqueue_each E key [] added w = (Returns added, w)"
| "enqueue_each E key (track # tracks) added w =
     (case dict_get track key PNone of
        Raises e \<Rightarrow> (Raises e, w)
      | Unfinished \<Rightarrow> (Unfinished, w)
      | Returns track_uri \<Rightarrow>
          (case add_to_queue E track_uri w of
             (Returns _, w') \<Rightarrow> enqueue_each E key tracks (added @ [track]) w'
           | (Raises e, w') \<Rightarrow> (Raises e, w')
           | (Unfinished, w') \<Rightarrow> (Unfinished, w')))"

definition enqueue_all :: "env \<Rightarrow> string \<Rightarrow> pyval \<Rightarrow> pyval list py" where
  "enqueue_all E key tracks = bind (lift (py_iter tracks)) (\<lambda>ts. enqueue_each E key ts [])"

definition queue_response :: "string \<Rightarrow> string \<Rightarrow> pyval \<Rightarrow> pyval list \<Rightarrow> content list option" where
  "queue_response status details_key info added_tracks =
     Some [TextContentJson
             (PDict [(''status'', PStr status),
                     (details_key, info),
                     (''tracks_added'', PInt (int (length added_tracks)))])]"

text \<open>
  The action \<open>add\<close> of the arm \<open>case "Queue"\<close> (lines 327 to 424). The kind of the
  resource is decided by substring tests, in the order track, playlist, album, artist.
  Everything after the check of \<open>spotify_uri\<close> runs inside a \<open>try\<close> whose handler turns
  any exception into an error response.
\<close>

definition queue_add :: "nat \<Rightarrow> env \<Rightarrow> pyval \<Rightarrow> content list option py" where
  "queue_add fuel E spotify_uri =
     catch
       (bind (lift (py_in ''track'' spotify_uri)) (\<lambda>is_track.
        if is_track then
          bind (is_valid_track E spotify_uri) (\<lambda>ok.
          if \<not> truthy ok then
            ret (Some (create_error_response
                   ''Invalid or non-existent track URI. Please try another track.''))
          else
            bind (add_to_queue E spotify_uri) (\<lambda>_.
            bind (get_info E spotify_uri) (\<lambda>track_info.
            ret (Some [TextContentJson
                         (PDict [(''status'', PStr ''Track added to queue successfully''),
                                 (''track_details'', track_info)])]))))
        else
        bind (lift (py_in ''playlist'' spotify_uri)) (\<lambda>is_playlist.
        if is_playlist then
          bind (is_valid_playlist E spotify_uri) (\<lambda>ok.
          if \<not> truthy ok then
            ret (Some (create_error_response ''Invalid or non-existent playlist URI.''))
          else
            bind (get_playlist_tracks E spotify_uri) (\<lambda>playlist_tracks.
            bind (enqueue_all E ''id'' playlist_tracks) (\<lambda>added_tracks.
            bind (get_info E spotify_uri) (\<lambda>playlist_info.
            ret (queue_response
                   (''All '' @ show_nat (length added_tracks)
                    @ '' tracks from playlist added to queue successfully'')
                   ''playlist_details'' playlist_info added_tracks)))))
        else
        bind (lift (py_in ''album'' spotify_uri)) (\<lambda>is_album.
        if is_album then
          bind (is_valid_album E spotify_uri) (\<lambda>ok.
          if \<not> truthy ok then
            ret (Some (create_error_response ''Invalid or non-existent album URI.''))
          else
            bind (get_album_tracks fuel E spotify_uri) (\<lambda>album_tracks.
            bind (enqueue_all E ''uri'' album_tracks) (\<lambda>added_tracks.
            bind (get_info E spotify_uri) (\<lambda>album_info.
            ret (queue_response
                   (''All '' @ show_nat (length added_tracks)
                    @ '' tracks from album added to queue successfully'')
                   ''album_details'' album_info added_tracks)))))
        else
        bind (lift (py_in ''artist'' spotify_uri)) (\<lambda>is_artist.
        if is_artist then
          bind (is_valid_artist E spotify_uri) (\<lambda>ok.
          if \<not> truthy ok then
            ret (Some (create_error_response ''Invalid or non-existent artist URI.''))
          else
            bind (get_artist_top_tracks E spotify_uri) (\<lambda>artist_tracks.
            bind (enqueue_all E ''uri'' artist_tracks) (\<lambda>added_tracks.
            bind (get_info E spotify_uri) (\<lambda>artist_info.
            ret (queue_response
                   (''Top '' @ show_nat (length added_tracks)
                    @ '' tracks from artist added to queue successfully'')
                   ''artist_details'' artist_info added_tracks)))))
        else
          ret (Some (create_error_response
                 ''Unsupported URI type. Please provide a track, playlist, album, or artist URI.'')))))))
       (\<lambda>e. bind (log_error (str_of_exn e)) (\<lambda>_.
            ret (Some (create_error_response (''Error adding to queue: '' @ str_of_exn e)))))"

text \<open>The arm \<open>case "Queue"\<close> (lines 321 to 435)\<close>

definition tool_Queue :: "nat \<Rightarrow> env \<Rightarrow> pyval \<Rightarrow> content list option py" where
  "tool_Queue fuel E arguments =
     bind (lift (dict_get arguments ''action'' PNone)) (\<lambda>action.
     if action = PStr ''add'' then
       bind (lift (dict_get arguments ''spotify_uri'' PNone)) (\<lambda>spotify_uri.
       if \<not> truthy spotify_uri then
         ret (Some (create_error_response ''spotify_uri is required for the 'add' action.''))
       else queue_add fuel E spotify_uri)
     else if action = PStr ''get'' then
       bind (get_queue E) (\<lambda>queue.
       ret (Some [TextContentJson queue]))
     else
       ret (Some (create_error_response
              (''Unknown queue action: '' @ py_str E action
               @ ''. Supported actions are: add and get.''))))"

text \<open>The arm \<open>case "GetInfo"\<close> (lines 436 to 444)\<close>

definition tool_GetInfo :: "env \<Rightarrow> pyval \<Rightarrow> content list option py" where
  "tool_GetInfo E arguments =
     bind (lift (dict_get arguments ''item_uri'' PNone)) (\<lambda>item_uri.
     bind (get_info E item_uri) (\<lambda>item_info.
     ret (Some [TextContentJson item_info])))"

text \<open>
  Lines 469 to 475 and 487 to 493: a \<open>track_ids\<close> given as a string is decoded with
  \<open>json.loads\<close>; \<open>Inl\<close> is the error response returned when it does not decode.
\<close>

definition decode_track_ids :: "env \<Rightarrow> pyval \<Rightarrow> (content list + pyval) py" where
  "decode_track_ids E track_ids =
     (case track_ids of
        PStr s \<Rightarrow>
          catch_class JSONDecodeError
            (bind (lift (of_sum (json_loads E s))) (\<lambda>v. ret (Inr v)))
            (\<lambda>_. bind (log_error ''track_ids must be a list or a valid JSON array.'') (\<lambda>_.
                 ret (Inl (create_error_response
                        ''track_ids must be a list or a valid JSON array.''))))
      | _ \<Rightarrow> ret (Inr track_ids))"

text \<open>The arm \<open>case "Playlist"\<close> (lines 446 to 526)\<close>

definition tool_Playlist :: "env \<Rightarrow> pyval \<Rightarrow> content list option py" where
  "tool_Playlist E arguments =
     bind (lift (dict_get arguments ''action'' PNone)) (\<lambda>action.
     if action = PStr ''get'' then
       bind (get_current_user_playlists E) (\<lambda>playlists.
       ret (Some [TextContentJson playlists]))
     else if action = PStr ''get_tracks'' then
       bind (lift (dict_get arguments ''playlist_id'' PNone)) (\<lambda>playlist_id.
       if \<not> truthy playlist_id then
         bind (log_error ''playlist_id is required for get_tracks action.'') (\<lambda>_.
         ret (Some (create_error_response ''playlist_id is required for get_tracks action.'')))
       else
         bind (get_playlist_tracks E playlist_id) (\<lambda>tracks.
         ret (Some [TextContentJson tracks])))
     else if action = PStr ''add_tracks'' then
       bind (lift (dict_get arguments ''track_ids'' PNone)) (\<lambda>track_ids.
       bind (decode_track_ids E track_ids) (\<lambda>decoded.
       case decoded of
         Inl response \<Rightarrow> ret (Some response)
       | Inr track_ids \<Rightarrow>
           bind (lift (dict_get arguments ''playlist_id'' PNone)) (\<lambda>playlist_id.
           bind (add_tracks_to_playlist E playlist_id track_ids) (\<lambda>_.
           ret (Some [TextContent ''Tracks added to playlist.''])))))
     else if action = PStr ''remove_tracks'' then
       bind (lift (dict_get arguments ''track_ids'' PNone)) (\<lambda>track_ids.
       bind (decode_track_ids E track_ids) (\<lambda>decoded.
       case decoded of
         Inl response \<Rightarrow> ret (Some response)
       | Inr track_ids \<Rightarrow>
           bind (lift (dict_get arguments ''playlist_id'' PNone)) (\<lambda>playlist_id.
           bind (remove_tracks_from_playlist E playlist_id track_ids) (\<lambda>_.
           ret (Some [TextContent ''Tracks removed from playlist.''])))))
     else if action = PStr ''change_details'' then
       bind (lift (dict_get arguments ''playlist_id'' PNone)) (\<lambda>playlist_id.
       if \<not> truthy playlist_id then
         bind (log_error ''playlist_id is required for change_details action.'') (\<lambda>_.
         ret (Some (create_error_response
                ''playlist_id is required for change_details action.'')))
       else
       bind (lift (dict_get arguments ''name'' PNone)) (\<lambda>name.
       bind (lift (dict_get arguments ''description'' PNone)) (\<lambda>description.
       if \<not> truthy name \<and> \<not> truthy description then
         bind (log_error ''At least one of name, description or public is required.'') (\<lambda>_.
         ret (Some (create_error_response
                ''At least one of name, description, public, or collaborative is required.'')))
       else
         bind (change_playlist_details E playlist_id name description) (\<lambda>_.
         ret (Some [TextContent ''Playlist details changed.''])))))
     else
       ret (Some (create_error_response
              (''Unknown playlist action: '' @ py_str E action
               @ ''. Supported actions are: get, get_tracks, add_tracks, remove_tracks, change_details.''))))"

subsection \<open>\<open>handle_call_tool\<close> (lines 175 to 538)\<close>

text \<open>The \<open>match name[7:]\<close> inside the \<open>try\<close> (lines 183 to 530).\<close>

definition dispatch :: "nat \<Rightarrow> env \<Rightarrow> string \<Rightarrow> pyval \<Rightarrow> content list option py" where
  "dispatch fuel E name arguments =
     (let tool = drop 7 name in
      if tool = ''Playback'' then tool_Playback E arguments
      else if tool = ''Search'' then tool_Search E arguments
      else if tool = ''Queue'' then tool_Queue fuel E arguments
      else if tool = ''GetInfo'' then tool_GetInfo E arguments
      else if tool = ''Playlist'' then tool_Playlist E arguments
      else
        bind (log_error (''Unknown tool: '' @ name)) (\<lambda>_.
        ret (Some (create_error_response (''Unknown tool: '' @ name)))))"

text \<open>The two handlers of the \<open>try\<close> (lines 531 to 538).\<close>

definition top_handler :: "exn \<Rightarrow> content list option py" where
  "top_handler e =
     (if exn_class_of e = SpotifyException then
        bind (log_error (''Spotify Client error occurred: '' @ str_of_exn e)) (\<lambda>_.
        ret (Some (create_error_response
               (''An error occurred with the Spotify Client: '' @ str_of_exn e))))
      else
        bind (log_error (''Unexpected error occurred: '' @ str_of_exn e)) (\<lambda>_.
        ret (Some (create_error_response (''Unexpected error occurred: '' @ str_of_exn e)))))"

text \<open>
  The assertion of line 181 stands before the \<open>try\<close>: when it fails, its
  \<open>AssertionError\<close> leaves the function.
\<close>

definition handle_call_tool :: "nat \<Rightarrow> env \<Rightarrow> string \<Rightarrow> pyval \<Rightarrow> content list option py" where
  "handle_call_tool fuel E name arguments =
     (if take 7 name \<noteq> ''Spotify'' then raise (Exn AssertionError (''Unknown tool: '' @ name))
      else catch (dispatch fuel E name arguments) top_handler)"

section \<open>Instances of the parameters\<close>

text \<open>
  The theorems below hold for every environment unless they fix some of its fields.
  To run the model on concrete inputs, \<open>plain_env\<close> fills every field: a remote service
  and a local endpoint that refuse every request, decorators that hand over to the
  method they wrap in the world they are called in (\<open>validate\<close> supplying no device), and
  parsing functions that return their first argument unchanged. Its library functions
  cover the inputs used here: the path of a URL of the form
  \<open>scheme://host/path?query#fragment\<close>, decimal numerals, and no JSON text at all.
\<close>

definition refusing_remote :: "event list \<Rightarrow> string \<Rightarrow> pyval list \<Rightarrow> exn + pyval" where
  "refusing_remote h m args = Inl (Exn SpotifyException ''http status: 503'')"

definition timing_out_endpoint :: "event list \<Rightarrow> pyval \<Rightarrow> pyval \<Rightarrow> exn + pyval" where
  "timing_out_endpoint h q t = Inl (Exn RequestException ''Read timed out. (read timeout=5)'')"

fun after_slashes :: "string \<Rightarrow> string" where
  "after_slashes (a # b # s) =
     (if a = CHR ''/'' \<and> b = CHR ''/'' then s else after_slashes (b # s))"
| "after_slashes s = []"

definition plain_urlparse_path :: "string \<Rightarrow> exn + string" where
  "plain_urlparse_path u =
     Inr (takeWhile (\<lambda>c. c \<noteq> CHR ''?'' \<and> c \<noteq> CHR ''#'')
            (dropWhile (\<lambda>c. c \<noteq> CHR ''/'') (after_slashes u)))"

definition plain_int_of_str :: "string \<Rightarrow> exn + int" where
  "plain_int_of_str s =
     (if s \<noteq> [] \<and> list_all (\<lambda>c. 48 \<le> (of_char c :: nat) \<and> (of_char c :: nat) \<le> 57) s
      then Inr (foldl (\<lambda>n c. 10 * n + (int (of_char c) - 48)) 0 s)
      else Inl (Exn ValueError (''invalid literal for int() with base 10: '' @ sq @ s @ sq)))"

definition direct_validate :: "(pyval \<Rightarrow> pyval py) \<Rightarrow> pyval py" where
  "direct_validate method = method PNone"

definition direct_ensure_username :: "pyval py \<Rightarrow> pyval py" where
  "direct_ensure_username method = method"

definition plain_env :: env where
  "plain_env =
     \<lparr> remote = refusing_remote,
       local_endpoint = timing_out_endpoint,
       SPOTIFY_COUNTRY = PStr ''US'',
       urlparse_path = plain_urlparse_path,
       json_loads = (\<lambda>s. Inl (Exn JSONDecodeError ''Expecting value'')),
       int_of_str = plain_int_of_str,
       container_repr = (\<lambda>v. ''...''),
       validate = direct_validate,
       ensure_username = direct_ensure_username,
       parse_local_documents = (\<lambda>documents qtype. Inr documents),
       parse_search_results = (\<lambda>results qtype user. Inr results),
       parse_track = (\<lambda>track. Inr track),
       parse_tracks = (\<lambda>items. Inr items),
       parse_playlist = (\<lambda>playlist user. Inr playlist) \<rparr>"

definition world0 :: world where
  "world0 = \<lparr> history = [], username = PStr ''me'' \<rparr>"

subsection \<open>A playlist of five tracks on three pages\<close>

definition track_of :: "string \<Rightarrow> pyval" where
  "track_of n =
     PDict [(''uri'', PStr (''spotify:track:'' @ n)),
            (''name'', PStr n),
            (''artists'', PList [PDict [(''name'', PStr ''A'')]]),
            (''duration_ms'', PInt 1000),
            (''album'', PDict [(''name'', PStr ''L'')]),
            (''track_number'', PInt 1)]"

definition entry_of :: "string \<Rightarrow> pyval" where
  "entry_of n = PDict [(''track'', track_of n)]"

definition page1 :: pyval where
  "page1 = PDict [(''items'', PList [entry_of ''t1'', entry_of ''t2'']), (''next'', PStr ''p2'')]"

definition page2 :: pyval where
  "page2 = PDict [(''items'', PList [entry_of ''t3'', entry_of ''t4'']), (''next'', PStr ''p3'')]"

definition page3 :: pyval where
  "page3 = PDict [(''items'', PList [entry_of ''t5'']), (''next'', PNone)]"

definition three_page_remote :: "event list \<Rightarrow> string \<Rightarrow> pyval list \<Rightarrow> exn + pyval" where
  "three_page_remote h m args =
     (if m = ''playlist_items'' then Inr page1
      else if m = ''playlist'' then Inr (PDict [(''name'', PStr ''Mix''), (''tracks'', page1)])
      else if m = ''next'' then
        (case args of
           [p] \<Rightarrow> (case subscript p ''next'' of
                    Returns (PStr c) \<Rightarrow>
                      if c = ''p2'' then Inr page2
                      else if c = ''p3'' then Inr page3
                      else Inl (Exn SpotifyException ''http status: 404'')
                  | _ \<Rightarrow> Inr PNone)
         | _ \<Rightarrow> Inl (Exn SpotifyException ''http status: 400''))
      else Inl (Exn SpotifyException ''http status: 404''))"

text \<open>What the listing of line 140 makes of a track of this playlist.\<close>

definition listed :: "string \<Rightarrow> pyval" where
  "listed n =
     PDict [(''uri'', PStr (''spotify:track:'' @ n)),
            (''name'', PStr n),
            (''artists'', PList [PStr ''A'']),
            (''duration_ms'', PInt 1000),
            (''album'', PStr ''L'')]"

subsection \<open>A service that queues only on a named device\<close>

definition one_device_remote :: "event list \<Rightarrow> string \<Rightarrow> pyval list \<Rightarrow> exn + pyval" where
  "one_device_remote h m args =
     (if m = ''add_to_queue'' then
        (case args of
           [u, PNone] \<Rightarrow> Inl (Exn SpotifyException ''No active device found'')
         | _ \<Rightarrow> Inr PNone)
      else if m = ''devices'' then
        Inr (PDict [(''devices'',
               PList [PDict [(''id'', PStr ''D1''), (''name'', PStr ''Phone''),
                             (''is_active'', PBool False)]])])
      else Inl (Exn SpotifyException ''http status: 404''))"

subsection \<open>An album of four tracks whose third cannot be queued\<close>

definition album_page :: pyval where
  "album_page =
     PDict [(''items'', PList [track_of ''a1'', track_of ''a2'', track_of ''a3'', track_of ''a4'']),
            (''next'', PNone)]"

definition third_fails_remote :: "event list \<Rightarrow> string \<Rightarrow> pyval list \<Rightarrow> exn + pyval" where
  "third_fails_remote h m args =
     (if m = ''album'' then Inr (PDict [(''name'', PStr ''L'')])
      else if m = ''album_tracks'' then Inr album_page
      else if m = ''add_to_queue'' then
        (if args = [PStr ''spotify:track:a3'', PNone]
         then Inl (Exn SpotifyException ''http status: 502'')
         else Inr PNone)
      else Inl (Exn SpotifyException ''http status: 404''))"

section \<open>Vocabulary of the properties\<close>

text \<open>
  \<open>lookup_ok m E uri w\<close>: the identifier can be taken from \<open>uri\<close> and the remote lookup
  \<open>m\<close> of it, issued in world \<open>w\<close>, succeeds.
\<close>

definition lookup_ok :: "string \<Rightarrow> env \<Rightarrow> pyval \<Rightarrow> world \<Rightarrow> bool" where
  "lookup_ok m E uri w =
     (case extract_id_from_uri E uri of
        Returns i \<Rightarrow> (case remote E (history w) m [i] of Inr _ \<Rightarrow> True | Inl _ \<Rightarrow> False)
      | _ \<Rightarrow> False)"

subsection \<open>A service with a one-track catalogue\<close>

definition catalogue_reply :: pyval where
  "catalogue_reply = PDict [(''tracks'', PList [PDict [(''name'', PStr ''Song''), (''id'', PStr ''1'')]])]"

definition catalogue_remote :: "event list \<Rightarrow> string \<Rightarrow> pyval list \<Rightarrow> exn + pyval" where
  "catalogue_remote h m args =
     (if m = ''search'' then Inr catalogue_reply
      else Inl (Exn SpotifyException ''http status: 404''))"

definition local_list_endpoint :: "event list \<Rightarrow> pyval \<Rightarrow> pyval \<Rightarrow> exn + pyval" where
  "local_list_endpoint h q t = Inr (PList [PDict [(''id'', PStr ''7''), (''name'', PStr ''Local'')]])"





text \<open>What \<open>get_album_tracks\<close> makes of a track of the album above.\<close>

definition album_listed :: "string \<Rightarrow> pyval" where
  "album_listed n =
     PDict [(''uri'', PStr (''spotify:track:'' @ n)),
            (''name'', PStr n),
            (''artists'', PList [PStr ''A'']),
            (''duration_ms'', PInt 1000),
            (''track_number'', PInt 1)]"


section \<open>Properties\<close>

subsection \<open>Outcomes of the built-in operations\<close>

lemma obind_Unfinished_iff:
  "obind r f = Unfinished \<longleftrightarrow> r = Unfinished \<or> (\<exists>v. r = Returns v \<and> f v = Unfinished)"
  by (cases r) (simp_all add: obind_def)

lemma of_sum_not_unfinished [simp]: "of_sum r \<noteq> Unfinished"
  by (cases r) (simp_all add: of_sum_def)

lemma startswith_not_unfinished [simp]: "startswith x p \<noteq> Unfinished"
  by (cases x) simp_all

lemma extract_id_not_unfinished: "extract_id_from_uri E uri \<noteq> Unfinished"
  by (auto simp: extract_id_from_uri_def obind_Unfinished_iff split: pyval.splits)

subsection \<open>Validation\<close>

lemma is_valid_result:
  "fst (is_valid m E uri w) = Returns (PBool (lookup_ok m E uri w))"
  using extract_id_not_unfinished [of E uri]
  by (cases "extract_id_from_uri E uri")
     (auto simp: is_valid_def lookup_ok_def catch_def bind_def lift_def ret_def sp_def
        of_sum_def split: sum.splits)

lemma is_valid_history:
  "history (snd (is_valid m E uri w)) =
     (case extract_id_from_uri E uri of
        Returns i \<Rightarrow> history w @ [SpCall m [i]]
      | _ \<Rightarrow> history w)"
  using extract_id_not_unfinished [of E uri]
  by (cases "extract_id_from_uri E uri")
     (auto simp: is_valid_def catch_def bind_def lift_def ret_def sp_def
        of_sum_def split: sum.splits)

text \<open>
  Claim C6. For every locator, every environment and every world, each of
  \<open>is_valid_track\<close>, \<open>is_valid_album\<close>, \<open>is_valid_playlist\<close> and \<open>is_valid_artist\<close> returns
  a boolean and never raises: \<open>True\<close> exactly when the identifier could be extracted and
  the remote lookup succeeded, \<open>False\<close> for every exception of either step.
\<close>

theorem validation_never_raises:
  "fst (is_valid_track E uri w) = Returns (PBool (lookup_ok ''track'' E uri w)) \<and>
   fst (is_valid_album E uri w) = Returns (PBool (lookup_ok ''album'' E uri w)) \<and>
   fst (is_valid_playlist E uri w) = Returns (PBool (lookup_ok ''playlist'' E uri w)) \<and>
   fst (is_valid_artist E uri w) = Returns (PBool (lookup_ok ''artist'' E uri w))"
  by (simp add: is_valid_track_def is_valid_album_def is_valid_playlist_def
        is_valid_artist_def is_valid_result)

subsection \<open>Adding to the queue\<close>

lemma bound_at_add_to_queue: "bound_at ''add_to_queue'' = Some 406"
  by (simp add: bound_at_def Client_defs_def)

text \<open>
  The body of the method in effect sends one request, on the device it was handed, and
  passes the outcome on: it lists no devices and tries nothing twice.
\<close>

lemma add_to_queue_body_one_request:
  "add_to_queue_body E track_id device w =
     (case device_id_of device of
        Returns i \<Rightarrow>
          (case remote E (history w) ''add_to_queue'' [track_id, i] of
             Inl e \<Rightarrow> Raises e | Inr _ \<Rightarrow> Returns PNone,
           w\<lparr>history := history w @ [SpCall ''add_to_queue'' [track_id, i]]\<rparr>)
      | Raises e \<Rightarrow> (Raises e, w)
      | Unfinished \<Rightarrow> (Unfinished, w))"
  by (simp add: add_to_queue_body_def bind_def lift_def sp_def ret_def of_sum_def
        split: outcome.splits sum.splits)

text \<open>
  The definition of line 219 does what its comments say: on the service that queues only
  on a named device, with one device listed, it fails once, lists the devices and
  succeeds on the first one, in three requests.
\<close>

lemma add_to_queue_shadowed_retries:
  "add_to_queue_shadowed (E\<lparr>remote := one_device_remote\<rparr>) (PStr ''spotify:track:x'') w =
     (Returns (PBool True),
      w\<lparr>history := history w @
           [SpCall ''add_to_queue'' [PStr ''spotify:track:x'', PNone],
            SpCall ''devices'' [],
            SpCall ''add_to_queue'' [PStr ''spotify:track:x'', PStr ''D1'']]\<rparr>)"
  by (simp add: add_to_queue_shadowed_def catch_def bind_def lift_def sp_def ret_def of_sum_def
        one_device_remote_def obind_def)


subsection \<open>The tracks of a playlist\<close>

lemma bound_at_get_playlist_tracks: "bound_at ''get_playlist_tracks'' = Some 450"
  by (simp add: bound_at_def Client_defs_def)

text \<open>
  The body of the method in effect reads the playlist with one request and returns what
  \<open>utils.parse_tracks\<close> makes of the items embedded in it.
\<close>

lemma get_playlist_tracks_body_reads_once:
  "get_playlist_tracks_body E playlist_id w =
     (case remote E (history w) ''playlist'' [playlist_id] of
        Inl e \<Rightarrow> Raises e
      | Inr playlist \<Rightarrow>
          if \<not> truthy playlist then Raises (Exn ValueError ''No playlist found.'')
          else obind (subscript playlist ''tracks'') (\<lambda>page.
               obind (subscript page ''items'') (\<lambda>items. of_sum (parse_tracks E items))),
      w\<lparr>history := history w @ [SpCall ''playlist'' [playlist_id]]\<rparr>)"
  by (simp add: get_playlist_tracks_body_def bind_def sp_def of_sum_def lift_def raise_def
        split: sum.splits)

lemma page_tracks_page1:
  "page_tracks playlist_item page1 = Returns [listed ''t1'', listed ''t2'']"
  by (simp add: page_tracks_def page1_def entry_of_def track_of_def listed_def playlist_item_def
        track_data_def album_name_of_def names_of_def obind_def)

lemma page_tracks_page2:
  "page_tracks playlist_item page2 = Returns [listed ''t3'', listed ''t4'']"
  by (simp add: page_tracks_def page2_def entry_of_def track_of_def listed_def playlist_item_def
        track_data_def album_name_of_def names_of_def obind_def)

lemma page_tracks_page3:
  "page_tracks playlist_item page3 = Returns [listed ''t5'']"
  by (simp add: page_tracks_def page3_def entry_of_def track_of_def listed_def playlist_item_def
        track_data_def album_name_of_def names_of_def obind_def)

lemma cursor_page1: "subscript page1 ''next'' = Returns (PStr ''p2'')" "truthy page1"
  by (simp_all add: page1_def)

lemma cursor_page2: "subscript page2 ''next'' = Returns (PStr ''p3'')" "truthy page2"
  by (simp_all add: page2_def)

lemma cursor_page3: "subscript page3 ''next'' = Returns PNone" "truthy page3"
  by (simp_all add: page3_def)

lemma next_of_page1: "three_page_remote h ''next'' [page1] = Inr page2"
  by (simp add: three_page_remote_def cursor_page1)

lemma next_of_page2: "three_page_remote h ''next'' [page2] = Inr page3"
  by (simp add: three_page_remote_def cursor_page2)

lemma first_of_playlist: "three_page_remote h ''playlist_items'' args = Inr page1"
  by (simp add: three_page_remote_def)

text \<open>
  The definition of line 140 follows the cursor: on the playlist of three pages (two,
  two and one track) it returns the five tracks in their order, and three units of fuel
  are enough.
\<close>

lemma get_playlist_tracks_shadowed_five_tracks:
  "fst (get_playlist_tracks_shadowed 3 (E\<lparr>remote := three_page_remote\<rparr>)
          (PStr ''spotify:playlist:PL'') w) =
     Returns (PList [listed ''t1'', listed ''t2'', listed ''t3'', listed ''t4'', listed ''t5''])"
  by (simp add: get_playlist_tracks_shadowed_def extract_id_from_uri_def bind_def lift_def
        sp_def of_sum_def obind_def first_of_playlist next_of_page1 next_of_page2
        page_tracks_page1 page_tracks_page2 page_tracks_page3 cursor_page1 cursor_page2
        cursor_page3 numeral_3_eq_3)

text \<open>
  Claim C2. The claim describes the definition of line 140, which line 450 rebinds. On
  the same playlist the method in effect (under a decorator that hands over) sends the
  single request \<open>playlist\<close> and returns what \<open>utils.parse_tracks\<close>, whatever it is, makes
  of the two entries of the first page: the cursor is not followed, and the tracks of
  the second and third page are never read.
\<close>

theorem get_playlist_tracks_first_page_only:
  "get_playlist_tracks
       (E\<lparr>remote := three_page_remote, ensure_username := direct_ensure_username\<rparr>)
       (PStr ''spotify:playlist:PL'') w =
     (of_sum (parse_tracks E (PList [entry_of ''t1'', entry_of ''t2''])),
      w\<lparr>history := history w @ [SpCall ''playlist'' [PStr ''spotify:playlist:PL'']]\<rparr>)"
  by (simp add: get_playlist_tracks_def direct_ensure_username_def
        get_playlist_tracks_body_reads_once three_page_remote_def page1_def obind_def)

subsection \<open>Search: the local endpoint first\<close>

text \<open>
  Claim C4. When the local endpoint answers with a non-empty list, line 56 calls
  \<open>.get\<close> on that list: \<open>smart_search\<close> raises \<open>AttributeError\<close> after the one local
  request. It returns no local results, whatever the query, the kind and the limit.
\<close>

theorem smart_search_local_list_raises:
  "local_endpoint E (history w) query qtype = Inr (PList (d # ds)) \<Longrightarrow>
   smart_search E query qtype limit w =
     (Raises (no_attribute (PList (d # ds)) ''get''),
      w\<lparr>history := history w @ [LocalGet query qtype]\<rparr>)"
  by (simp add: smart_search_def bind_def catch_class_def requests_get_def of_sum_def
        is_list_def lift_def obind_def)

theorem smart_search_local_list_raises_witness:
  "smart_search (plain_env\<lparr>local_endpoint := local_list_endpoint, remote := catalogue_remote\<rparr>)
       (PStr ''x'') (PStr ''track'') (PInt 5) world0 =
     (Raises (Exn AttributeError (sq @ ''list'' @ sq @ '' object has no attribute '' @ sq @ ''get'' @ sq)),
      world0\<lparr>history := [LocalGet (PStr ''x'') (PStr ''track'')]\<rparr>)"
  using smart_search_local_list_raises
    [of "plain_env\<lparr>local_endpoint := local_list_endpoint, remote := catalogue_remote\<rparr>"
        world0 "PStr ''x''" "PStr ''track''"
        "PDict [(''id'', PStr ''7''), (''name'', PStr ''Local'')]" "[]" "PInt 5"]
  by (simp add: local_list_endpoint_def world0_def no_attribute_def)

text \<open>
  A local answer that is a dictionary (the shape \<open>.get("documents")\<close> expects) fails the
  \<open>isinstance(local_data, list)\<close> test of line 55, and the search goes online.
\<close>

lemma smart_search_local_dict_goes_online:
  "local_endpoint E (history w) query qtype = Inr (PDict kvs) \<Longrightarrow>
   smart_search E query qtype limit w =
     online_search E query qtype limit (w\<lparr>history := history w @ [LocalGet query qtype]\<rparr>)"
  by (simp add: smart_search_def bind_def catch_class_def requests_get_def of_sum_def
        is_list_def ret_def)

text \<open>
  A local request that fails with a \<open>RequestException\<close> leaves \<open>smart_search\<close> with the
  remote search alone.
\<close>

lemma smart_search_local_failure:
  "local_endpoint E (history w) query qtype = Inl e \<Longrightarrow> exn_class_of e = RequestException \<Longrightarrow>
   smart_search E query qtype limit w =
     (case remote E (history w @ [LocalGet query qtype]) ''search''
             [query, qtype, limit, SPOTIFY_COUNTRY E] of
        Inl e' \<Rightarrow> Raises e'
      | Inr online_results \<Rightarrow>
          of_sum (parse_search_results E online_results qtype (username w)),
      w\<lparr>history := history w @
           [LocalGet query qtype,
            SpCall ''search'' [query, qtype, limit, SPOTIFY_COUNTRY E]]\<rparr>)"
  by (simp add: smart_search_def online_search_def bind_def catch_class_def requests_get_def
        of_sum_def is_list_def ret_def sp_def lift_def split: sum.splits)

text \<open>
  Claim C8. When the local request fails with a \<open>RequestException\<close> (a timeout, a
  connection error, an HTTP error status), \<open>smart_search\<close> swallows it and returns what
  the remote search returns, parsed by \<open>utils.parse_search_results\<close>, or raises what the
  remote search raises: the outcome is that of the remote search alone, and the local
  exception is no part of it.
\<close>

theorem smart_search_falls_back:
  assumes "local_endpoint E (history w) query qtype = Inl e"
    and "exn_class_of e = RequestException"
  shows "smart_search E query qtype limit w =
     (case remote E (history w @ [LocalGet query qtype]) ''search''
             [query, qtype, limit, SPOTIFY_COUNTRY E] of
        Inl e' \<Rightarrow> Raises e'
      | Inr online_results \<Rightarrow>
          of_sum (parse_search_results E online_results qtype (username w)),
      w\<lparr>history := history w @
           [LocalGet query qtype,
            SpCall ''search'' [query, qtype, limit, SPOTIFY_COUNTRY E]]\<rparr>)"
  using assms by (rule smart_search_local_failure)

theorem smart_search_falls_back_witness:
  "smart_search (plain_env\<lparr>remote := catalogue_remote\<rparr>) (PStr ''x'') (PStr ''track'') (PInt 5)
       world0 =
     (Returns catalogue_reply,
      world0\<lparr>history :=
           [LocalGet (PStr ''x'') (PStr ''track''),
            SpCall ''search'' [PStr ''x'', PStr ''track'', PInt 5, PStr ''US'']]\<rparr>)"
  using smart_search_falls_back
    [of "plain_env\<lparr>remote := catalogue_remote\<rparr>" world0 "PStr ''x''" "PStr ''track''"
        "Exn RequestException ''Read timed out. (read timeout=5)''" "PInt 5"]
  by (simp add: plain_env_def timing_out_endpoint_def catalogue_remote_def world0_def of_sum_def)

subsection \<open>The Search tool\<close>




subsection \<open>The Playlist tool: edits\<close>







lemma plain_env_refuses: "remote plain_env h m args = Inl (Exn SpotifyException ''http status: 503'')"
  by (simp add: plain_env_def refusing_remote_def)


subsection \<open>The Playback tool: start\<close>

lemma plain_track_is_invalid:
  "is_valid_track plain_env (PStr ''ABC'') world0 =
     (Returns (PBool False), world0\<lparr>history := [SpCall ''track'' [PStr ''ABC'']]\<rparr>)"
  by (simp add: is_valid_track_def is_valid_def extract_id_from_uri_def obind_def catch_def
        bind_def lift_def sp_def ret_def of_sum_def plain_env_refuses world0_def)

text \<open>
  Claim C7, as amended. For a \<open>start\<close> whose locator begins with \<open>spotify:track:\<close> and has
  a non-empty last segment \<open>t\<close>, when \<open>is_valid_track\<close> of \<open>t\<close> returns \<open>False\<close> the
  dispatcher returns the error payload \<open>Invalid or non-existent track URI. Please try
  another track.\<close>, and the only request the call adds to the history is the \<open>track\<close>
  lookup of the validation: \<open>start_playback\<close> is not requested.
\<close>

theorem playback_start_rejects_invalid_track:
  assumes "dict_get arguments ''action'' PNone = Returns (PStr ''start'')"
    and "dict_get arguments ''spotify_uri'' PNone = Returns (PStr u)"
    and "startswith (PStr u) ''spotify:track:'' = Returns True"
    and "last (split_on CHR '':'' u) = t" and "t \<noteq> []"
    and "fst (is_valid_track E (PStr t) w) = Returns (PBool False)"
  shows "handle_call_tool fuel E ''SpotifyPlayback'' arguments w =
           (Returns (Some (create_error_response
              ''Invalid or non-existent track URI. Please try another track.'')),
            snd (is_valid_track E (PStr t) w)) \<and>
         history (snd (handle_call_tool fuel E ''SpotifyPlayback'' arguments w)) =
           history w @
             (case extract_id_from_uri E (PStr t) of
                Returns i \<Rightarrow> [SpCall ''track'' [i]]
              | _ \<Rightarrow> [])"
proof -
  obtain w' where v: "is_valid_track E (PStr t) w = (Returns (PBool False), w')"
    using assms(6) by (cases "is_valid_track E (PStr t) w") simp
  have u: "u \<noteq> []"
    using assms(3) by auto
  have r: "handle_call_tool fuel E ''SpotifyPlayback'' arguments w =
           (Returns (Some (create_error_response
              ''Invalid or non-existent track URI. Please try another track.'')), w')"
    using assms(1-5) u v
    by (simp add: handle_call_tool_def dispatch_def tool_Playback_def catch_def bind_def
          lift_def ret_def del: startswith.simps)
  have h: "history w' =
           history w @
             (case extract_id_from_uri E (PStr t) of
                Returns i \<Rightarrow> [SpCall ''track'' [i]]
              | _ \<Rightarrow> [])"
    using is_valid_history [of "''track''" E "PStr t" w] v
    by (simp add: is_valid_track_def split: outcome.splits)
  show ?thesis
    using r v h by simp
qed

theorem playback_start_rejects_invalid_track_witness:
  "handle_call_tool 0 plain_env ''SpotifyPlayback''
       (PDict [(''action'', PStr ''start''), (''spotify_uri'', PStr ''spotify:track:ABC'')])
       world0 =
     (Returns (Some (create_error_response
        ''Invalid or non-existent track URI. Please try another track.'')),
      world0\<lparr>history := [SpCall ''track'' [PStr ''ABC'']]\<rparr>)"
  using playback_start_rejects_invalid_track
    [of "PDict [(''action'', PStr ''start''), (''spotify_uri'', PStr ''spotify:track:ABC'')]"
        "''spotify:track:ABC''" "''ABC''" plain_env world0 0]
  by (simp add: plain_track_is_invalid)

text \<open>
  The claim as stated fails for a track given by its web address. With the service
  refusing every request, the validation of the address returns \<open>False\<close>; the dispatcher
  does not validate it, because it does not begin with \<open>spotify:track:\<close>, and requests
  \<open>start_playback\<close>.
\<close>

theorem playback_start_web_address_not_validated:
  "fst (is_valid_track plain_env (PStr ''https://open.spotify.com/track/ABC'') world0) =
     Returns (PBool False) \<and>
   handle_call_tool 0 plain_env ''SpotifyPlayback''
       (PDict [(''action'', PStr ''start''),
               (''spotify_uri'', PStr ''https://open.spotify.com/track/ABC'')]) world0 =
     (Returns (Some (create_error_response
        ''An error occurred with the Spotify Client: http status: 503'')),
      world0\<lparr>history :=
        [SpCall ''start_playback'' [PNone, PStr ''https://open.spotify.com/track/ABC'', PNone],
         LogError ''Error starting playback: http status: 503.'',
         LogError ''Spotify Client error occurred: http status: 503'']\<rparr>)"
  by (simp add: is_valid_track_def is_valid_result lookup_ok_def plain_env_refuses
        handle_call_tool_def dispatch_def tool_Playback_def start_playback_def
        start_playback_body_def device_id_of_def top_handler_def catch_def bind_def lift_def
        ret_def raise_def sp_def of_sum_def log_error_def obind_def world0_def
        plain_env_def direct_validate_def refusing_remote_def split: outcome.splits)

text \<open>The same happens for the locator \<open>spotify:track:\<close>, whose last segment is empty.\<close>

lemma playback_start_empty_id_not_validated:
  "handle_call_tool 0 plain_env ''SpotifyPlayback''
       (PDict [(''action'', PStr ''start''), (''spotify_uri'', PStr ''spotify:track:'')]) world0 =
     (Returns (Some (create_error_response
        ''An error occurred with the Spotify Client: http status: 503'')),
      world0\<lparr>history :=
        [SpCall ''start_playback'' [PList [PStr ''spotify:track:''], PNone, PNone],
         LogError ''Error starting playback: http status: 503.'',
         LogError ''Spotify Client error occurred: http status: 503'']\<rparr>)"
  by (simp add: handle_call_tool_def dispatch_def tool_Playback_def start_playback_def
        start_playback_body_def device_id_of_def top_handler_def catch_def bind_def lift_def
        ret_def raise_def sp_def of_sum_def log_error_def obind_def world0_def
        plain_env_def direct_validate_def refusing_remote_def)

subsection \<open>The Queue tool: an album whose third track cannot be queued\<close>

lemma album_uri_kind:
  "py_in ''track'' (PStr ''spotify:album:L'') = Returns False"
  "py_in ''playlist'' (PStr ''spotify:album:L'') = Returns False"
  "py_in ''album'' (PStr ''spotify:album:L'') = Returns True"
  by simp_all

lemma album_uri_id: "extract_id_from_uri E (PStr ''spotify:album:L'') = Returns (PStr ''L'')"
  by (simp add: extract_id_from_uri_def obind_def)

lemma album_is_valid:
  "is_valid_album (E\<lparr>remote := third_fails_remote, validate := direct_validate\<rparr>)
       (PStr ''spotify:album:L'') w =
     (Returns (PBool True), w\<lparr>history := history w @ [SpCall ''album'' [PStr ''L'']]\<rparr>)"
  by (simp add: is_valid_album_def is_valid_def album_uri_id catch_def bind_def lift_def sp_def
        ret_def of_sum_def third_fails_remote_def)

lemma album_page_tracks:
  "page_tracks album_item album_page =
     Returns [album_listed ''a1'', album_listed ''a2'', album_listed ''a3'', album_listed ''a4'']"
  by (simp add: page_tracks_def album_page_def track_of_def album_listed_def album_item_def
        track_data_def names_of_def obind_def)

lemma album_page_cursor: "subscript album_page ''next'' = Returns PNone" "truthy album_page"
  by (simp_all add: album_page_def)

text \<open>The album has one page, so one unit of fuel is enough to list it.\<close>

lemma album_tracks_listed:
  "get_album_tracks (Suc fuel) (E\<lparr>remote := third_fails_remote, validate := direct_validate\<rparr>)
       (PStr ''spotify:album:L'') w =
     (Returns (PList [album_listed ''a1'', album_listed ''a2'', album_listed ''a3'',
                      album_listed ''a4'']),
      w\<lparr>history := history w @ [SpCall ''album_tracks'' [PStr ''L'']]\<rparr>)"
  by (cases fuel)
     (simp_all add: get_album_tracks_def album_uri_id bind_def lift_def sp_def of_sum_def
        third_fails_remote_def album_page_tracks album_page_cursor)

lemma album_add_each:
  "add_to_queue (E\<lparr>remote := third_fails_remote, validate := direct_validate\<rparr>) (PStr u) w =
     (if u = ''spotify:track:a3'' then Raises (Exn SpotifyException ''http status: 502'')
      else Returns PNone,
      w\<lparr>history := history w @ [SpCall ''add_to_queue'' [PStr u, PNone]]\<rparr>)"
  by (simp add: add_to_queue_def direct_validate_def add_to_queue_body_one_request
        device_id_of_def third_fails_remote_def)

lemma album_listed_uri:
  "dict_get (album_listed n) ''uri'' PNone = Returns (PStr (''spotify:track:'' @ n))"
  by (simp add: album_listed_def)

text \<open>The loop stops at the third track, with two tracks queued.\<close>

lemma album_enqueue_stops_at_third:
  "enqueue_all (E\<lparr>remote := third_fails_remote, validate := direct_validate\<rparr>) ''uri''
       (PList [album_listed ''a1'', album_listed ''a2'', album_listed ''a3'', album_listed ''a4''])
       w =
     (Raises (Exn SpotifyException ''http status: 502''),
      w\<lparr>history := history w @
           [SpCall ''add_to_queue'' [PStr ''spotify:track:a1'', PNone],
            SpCall ''add_to_queue'' [PStr ''spotify:track:a2'', PNone],
            SpCall ''add_to_queue'' [PStr ''spotify:track:a3'', PNone]]\<rparr>)"
  by (simp add: enqueue_all_def bind_def lift_def album_listed_uri album_add_each)

text \<open>
  Claim C5. Adding the album of four tracks whose third request fails: two tracks are
  queued, the exception of the third leaves the loop and reaches the handler of line
  422, and the response is the error payload with the exception's text. It carries no
  count: the two queued tracks are reported nowhere.
\<close>

theorem album_enqueue_loses_count:
  "handle_call_tool (Suc fuel) (E\<lparr>remote := third_fails_remote, validate := direct_validate\<rparr>)
       ''SpotifyQueue''
       (PDict [(''action'', PStr ''add''), (''spotify_uri'', PStr ''spotify:album:L'')]) w =
     (Returns (Some (create_error_response ''Error adding to queue: http status: 502'')),
      w\<lparr>history := history w @
           [SpCall ''album'' [PStr ''L''],
            SpCall ''album_tracks'' [PStr ''L''],
            SpCall ''add_to_queue'' [PStr ''spotify:track:a1'', PNone],
            SpCall ''add_to_queue'' [PStr ''spotify:track:a2'', PNone],
            SpCall ''add_to_queue'' [PStr ''spotify:track:a3'', PNone],
            LogError ''http status: 502'']\<rparr>)"
  by (simp add: handle_call_tool_def dispatch_def tool_Queue_def queue_add_def catch_def
        bind_def lift_def ret_def log_error_def album_uri_kind album_is_valid
        album_tracks_listed album_enqueue_stops_at_third del: py_in.simps)

subsection \<open>The handlers of \<open>handle_call_tool\<close>\<close>








text \<open>
  The arm of the Playback tool has no case for an action outside \<open>get\<close>, \<open>start\<close>,
  \<open>pause\<close> and \<open>skip\<close>: the function runs off its end and returns \<open>None\<close>, which is no
  list of content blocks.
\<close>

lemma playback_unknown_action_returns_nothing:
  "dict_get arguments ''action'' PNone = Returns a \<Longrightarrow>
   a \<notin> {PStr ''get'', PStr ''start'', PStr ''pause'', PStr ''skip''} \<Longrightarrow>
   handle_call_tool fuel E ''SpotifyPlayback'' arguments w = (Returns None, w)"
  by (simp add: handle_call_tool_def dispatch_def tool_Playback_def catch_def bind_def lift_def
        ret_def)

end
